theory Spec2Isabelle
  imports Main
begin

section \<open>JavaScript string primitives used by the gateway\<close>

text \<open>
  Strings are byte lists. The gateway only ever compares against ASCII literals
  (the space, the pipe and the word Bearer), and an ASCII byte never occurs inside a
  multi-byte sequence, so the byte view agrees with JavaScript's code-unit view on
  everything the functions below test.
\<close>

text \<open>\<^verbatim>\<open>String.prototype.includes\<close>: does \<open>sub\<close> occur in \<open>s\<close> as a contiguous run.\<close>

fun includes_js :: "string \<Rightarrow> string \<Rightarrow> bool" where
  "includes_js [] sub = (sub = [])"
| "includes_js (x # xs) sub = (take (length sub) (x # xs) = sub \<or> includes_js xs sub)"

text \<open>
  \<^verbatim>\<open>String.prototype.split\<close> with a one-character separator: the empty string gives
  one empty part, and every occurrence of the separator starts a new part.
\<close>

fun split_js :: "char \<Rightarrow> string \<Rightarrow> string list" where
  "split_js c [] = [[]]"
| "split_js c (x # xs) =
     (if x = c then [] # split_js c xs
      else (case split_js c xs of
              [] \<Rightarrow> [[x]]
            | p # ps \<Rightarrow> (x # p) # ps))"

text \<open>
  \<^verbatim>\<open>String.prototype.substring(0, n)\<close>. It is used for log messages only; on a string
  with characters beyond ASCII it cuts after \<open>n\<close> bytes where JavaScript cuts after \<open>n\<close>
  code units.
\<close>

definition substring0 :: "string \<Rightarrow> nat \<Rightarrow> string" where
  "substring0 s n = take n s"

text \<open>\<^verbatim>\<open>Array.prototype.join\<close>.\<close>

fun join :: "string \<Rightarrow> string list \<Rightarrow> string" where
  "join sep [] = []"
| "join sep [x] = x"
| "join sep (x # y # ys) = x @ sep @ join sep (y # ys)"

text \<open>How a template literal renders a natural number: in decimal.\<close>

fun show_nat :: "nat \<Rightarrow> string" where
  "show_nat n =
     (if n < 10 then [char_of (48 + n)]
      else show_nat (n div 10) @ [char_of (48 + n mod 10)])"

text \<open>Truthiness of a string that may be undefined: undefined and the empty string are falsy.\<close>

fun truthy_str :: "string option \<Rightarrow> bool" where
  "truthy_str None = False"
| "truthy_str (Some s) = (s \<noteq> [])"

text \<open>How a template literal renders a string that may be undefined.\<close>

fun show_str :: "string option \<Rightarrow> string" where
  "show_str None = ''undefined''"
| "show_str (Some s) = s"

section \<open>Token classification\<close>

datatype token_type = sanctum | jwt

fun show_token_type :: "token_type option \<Rightarrow> string" where
  "show_token_type None = ''undefined''"
| "show_token_type (Some sanctum) = ''sanctum''"
| "show_token_type (Some jwt) = ''jwt''"

text \<open>\<^verbatim>\<open>return token.includes('|') ? 'sanctum' : 'jwt'\<close>\<close>

definition detectTokenType :: "string \<Rightarrow> token_type" where
  "detectTokenType token = (if includes_js token ''|'' then sanctum else jwt)"

section \<open>Logger\<close>

text \<open>
  The logger only writes to the console. The model keeps the sequence of logger calls
  (level and message), so that what a function logs can be told apart from what it
  returns or sends.
\<close>

datatype LogLevel = error | warn | info | debug

section \<open>Data model of the authentication middleware\<close>

text \<open>
  An identifier is a string or a number; the empty string and zero are falsy. At run time
  the field can hold a value of another kind (an object, a function, true), which is
  truthy.
\<close>

datatype json_id = IdStr string | IdNum int | IdOther

fun truthy_id :: "json_id option \<Rightarrow> bool" where
  "truthy_id None = False"
| "truthy_id (Some (IdStr s)) = (s \<noteq> [])"
| "truthy_id (Some (IdNum n)) = (n \<noteq> 0)"
| "truthy_id (Some IdOther) = True"

text \<open>
  \<^verbatim>\<open>interface AuthUser\<close>. The objects come from a JSON response or from decoded claims, so
  every field may be missing at run time, also the two that the interface declares as
  required.
\<close>

record AuthUser =
  id_field :: "json_id option"
  email :: "string option"
  nombre :: "string option"
  role :: "string option"
  roles :: "string list option"
  permissions :: "string list option"

text \<open>\<^verbatim>\<open>req.auth\<close>\<close>

record auth_context =
  authenticated :: bool
  user :: "AuthUser option"
  token :: "string option"
  tokenType :: "token_type option"

text \<open>The part of the request the middleware reads and writes.\<close>

record request =
  authorization :: "string option"
  auth :: "auth_context option"

text \<open>What a middleware sends with \<^verbatim>\<open>res.status(..).json({error, message})\<close>.\<close>

record response =
  status :: nat
  error_field :: string
  message_field :: string

record CacheEntry =
  userData :: AuthUser
  expiresAt :: int

text \<open>A thrown value: the name of its class, its \<^verbatim>\<open>code\<close> when it has one, its message.\<close>

record js_error =
  err_name :: string
  err_code :: "string option"
  err_message :: string

definition Error :: "string \<Rightarrow> js_error" where
  "Error m = \<lparr>err_name = ''Error'', err_code = None, err_message = m\<rparr>"

text \<open>\<^verbatim>\<open>Error.prototype.toString\<close>, which a template literal applies to a thrown error.\<close>

definition show_error :: "js_error \<Rightarrow> string" where
  "show_error e =
     (if err_name e = [] then err_message e
      else if err_message e = [] then err_name e
      else err_name e @ '': '' @ err_message e)"

text \<open>
  The module state and the effects of the module: the token cache, the logger calls, the
  \<^verbatim>\<open>axios.post\<close> calls (url and token) and the \<^verbatim>\<open>jwt.verify\<close> calls (token and secret).
\<close>

record world =
  tokenCache :: "string \<Rightarrow> CacheEntry option"
  logged :: "(LogLevel \<times> string) list"
  posted :: "(string \<times> string) list"
  verified :: "(string \<times> string) list"

definition logger :: "LogLevel \<Rightarrow> string \<Rightarrow> world \<Rightarrow> world" where
  "logger lvl msg w = w\<lparr>logged := logged w @ [(lvl, msg)]\<rparr>"

text \<open>
  The body of the authority's answer: the messages of its \<^verbatim>\<open>errors\<close> array when it has
  one, and \<^verbatim>\<open>data.validateToken\<close> when it has one.
\<close>

record graphql_body =
  errors :: "string list option"
  validateToken :: "AuthUser option"

text \<open>
  What awaiting \<^verbatim>\<open>axios.post\<close> gives: a rejection (connection refused, timeout, a status
  outside 2xx) or a response whose body may not be an object, and the milliseconds that
  went by meanwhile.
\<close>

datatype axios_outcome = Rejected js_error | Resolved "graphql_body option"

record axios_reply =
  outcome :: axios_outcome
  elapsed :: nat

text \<open>
  The claims \<^verbatim>\<open>jwt.verify\<close> decodes, as the middleware reads them. A payload that is a
  string has none of them, except that \<^verbatim>\<open>decoded.sub\<close> is then the string method of that
  name: \<^verbatim>\<open>claim_sub\<close> is \<open>Some IdOther\<close>.
\<close>

record jwt_claims =
  claim_userId :: "json_id option"
  claim_sub :: "json_id option"
  claim_id :: "json_id option"
  claim_email :: "string option"
  claim_nombre :: "string option"
  claim_role :: "string option"
  claim_roles :: "string list option"
  claim_permissions :: "string list option"

datatype jwt_result =
    Decoded jwt_claims
  | TokenExpiredError string
  | JsonWebTokenError string
  | VerifyThrew js_error

text \<open>
  Everything the module takes from outside: the MD5 digest in hexadecimal, the process
  environment, the authority behind \<^verbatim>\<open>axios.post\<close> (by url and token) and the library
  behind \<^verbatim>\<open>jwt.verify\<close> (by token and secret).
\<close>

record environment =
  md5_hex :: "string \<Rightarrow> string"
  JWT_SECRET :: "string option"
  NODE_ENV :: "string option"
  MS_AUTENTIFICACION_URL :: "string option"
  axios_post :: "string \<Rightarrow> string \<Rightarrow> axios_reply"
  jwt_verify :: "string \<Rightarrow> string \<Rightarrow> jwt_result"

text \<open>\<^verbatim>\<open>process.env.X || fallback\<close>\<close>

definition env_or :: "string option \<Rightarrow> string \<Rightarrow> string" where
  "env_or v fallback = (if truthy_str v then show_str v else fallback)"

definition CACHE_TTL_SECONDS :: int where
  "CACHE_TTL_SECONDS = 300"

section \<open>Validation cache\<close>

definition getCacheKey :: "environment \<Rightarrow> string \<Rightarrow> string" where
  "getCacheKey env tok = ''token:'' @ md5_hex env tok"

text \<open>
  \<^verbatim>\<open>getCachedValidation\<close>, with \<open>now\<close> the value of \<^verbatim>\<open>Date.now()\<close>: a missing entry is a
  miss, an entry with \<^verbatim>\<open>now > expiresAt\<close> is deleted and is a miss, any other entry is a
  hit.
\<close>

definition getCachedValidation ::
  "environment \<Rightarrow> int \<Rightarrow> string \<Rightarrow> world \<Rightarrow> AuthUser option \<times> world" where
  "getCachedValidation env now tok w =
     (let cacheKey = getCacheKey env tok in
      case tokenCache w cacheKey of
        None \<Rightarrow> (None, w)
      | Some cached \<Rightarrow>
          if now > expiresAt cached
          then (None, w\<lparr>tokenCache := (tokenCache w)(cacheKey := None)\<rparr>)
          else (Some (userData cached),
                logger debug
                  (''Token validation cache hit for token: '' @ substring0 tok 10 @ ''...'') w))"

text \<open>\<^verbatim>\<open>cacheValidation\<close>, with \<open>now\<close> the value of \<^verbatim>\<open>Date.now()\<close>.\<close>

definition cacheValidation :: "environment \<Rightarrow> int \<Rightarrow> string \<Rightarrow> AuthUser \<Rightarrow> world \<Rightarrow> world" where
  "cacheValidation env now tok u w =
     (let cacheKey = getCacheKey env tok;
          expires = now + CACHE_TTL_SECONDS * 1000
      in logger debug (''Cached token validation for '' @ show_nat (nat CACHE_TTL_SECONDS) @ ''s'')
           (w\<lparr>tokenCache := (tokenCache w)(cacheKey \<mapsto> \<lparr>userData = u, expiresAt = expires\<rparr>)\<rparr>))"

section \<open>Bearer extraction\<close>

text \<open>
  \<^verbatim>\<open>extractToken\<close>: a missing or empty header gives null; so does a header that does not
  split at spaces into exactly two parts of which the first is Bearer, after a debug
  message. \<^verbatim>\<open>split\<close> never returns an empty array, so \<^verbatim>\<open>parts[0]\<close> exists.
\<close>

definition extractToken :: "request \<Rightarrow> world \<Rightarrow> string option \<times> world" where
  "extractToken req w =
     (if \<not> truthy_str (authorization req) then (None, w)
      else
        (let parts = split_js CHR '' '' (show_str (authorization req)) in
         if length parts \<noteq> 2 \<or> hd parts \<noteq> ''Bearer''
         then (None, logger debug (''Invalid Authorization header format: '' @ hd parts) w)
         else (Some (parts ! 1), w)))"

section \<open>Remote validation of Sanctum tokens\<close>

definition authenticated_as :: "AuthUser \<Rightarrow> string \<Rightarrow> token_type \<Rightarrow> auth_context" where
  "authenticated_as u tok ty =
     \<lparr>authenticated = True, user = Some u, token = Some tok, tokenType = Some ty\<rparr>"

text \<open>
  The body of the \<^verbatim>\<open>try\<close> block of \<^verbatim>\<open>validateSanctumToken\<close>, reached on a cache miss. It
  posts once to the authority. A rejected post, an \<^verbatim>\<open>errors\<close> array, missing user data
  and a falsy id all throw; reading \<^verbatim>\<open>errors[0].message\<close> of an empty array throws a
  TypeError before the warning is logged. Only the last branch writes the cache, at the
  time the answer has arrived.
\<close>

definition sanctum_try ::
  "environment \<Rightarrow> int \<Rightarrow> request \<Rightarrow> string \<Rightarrow> world \<Rightarrow> (js_error + request) \<times> world" where
  "sanctum_try env now req tok w =
     (let authServiceUrl = env_or (MS_AUTENTIFICACION_URL env) ''http://localhost:8000/graphql'';
          w1 = logger debug (''Validating Sanctum token against '' @ authServiceUrl) w;
          reply = axios_post env authServiceUrl tok;
          w2 = w1\<lparr>posted := posted w1 @ [(authServiceUrl, tok)]\<rparr>
      in case outcome reply of
           Rejected e \<Rightarrow> (Inl e, w2)
         | Resolved body \<Rightarrow>
             (case (case body of None \<Rightarrow> None | Some b \<Rightarrow> errors b) of
                Some [] \<Rightarrow>
                  (Inl \<lparr>err_name = ''TypeError'', err_code = None,
                        err_message = ''Cannot read properties of undefined (reading 'message')''\<rparr>,
                   w2)
              | Some (m # ms) \<Rightarrow>
                  (Inl (Error ''Token validation failed''),
                   logger warn (''GraphQL error validating token: '' @ m) w2)
              | None \<Rightarrow>
                  (case (case body of None \<Rightarrow> None | Some b \<Rightarrow> validateToken b) of
                     None \<Rightarrow>
                       (Inl (Error ''Invalid token''),
                        logger warn ''Token validation returned no user data'' w2)
                   | Some u \<Rightarrow>
                       if \<not> truthy_id (id_field u)
                       then (Inl (Error ''Invalid token''),
                             logger warn ''Token validation returned no user data'' w2)
                       else
                         (let w3 = cacheValidation env (now + int (elapsed reply)) tok u w2;
                              req' = req\<lparr>auth := Some (authenticated_as u tok sanctum)\<rparr>
                          in (Inr req',
                              logger debug
                                (''Sanctum token validated for user: '' @ show_str (email u)) w3)))))"

text \<open>The \<^verbatim>\<open>catch\<close> block: one error message by error code (the accented letter as UTF-8).\<close>

definition sanctum_catch :: "js_error \<Rightarrow> world \<Rightarrow> world" where
  "sanctum_catch e w =
     (if err_code e = Some ''ECONNREFUSED''
      then logger error
             (''MS Autentificaci'' @ [CHR 0xC3, CHR 0xB3] @ ''n service is unreachable'') w
      else if err_code e = Some ''ECONNABORTED''
      then logger error
             (''MS Autentificaci'' @ [CHR 0xC3, CHR 0xB3] @ ''n request timeout'') w
      else logger error (''Sanctum token validation failed: '' @ show_error e) w)"

text \<open>
  \<^verbatim>\<open>validateSanctumToken\<close>: the cache first, at time \<open>now\<close>; on a hit the request is
  authenticated from the cache and the function returns. Otherwise the \<^verbatim>\<open>try\<close> block runs,
  and whatever it throws is replaced by one fixed error.
\<close>

definition validateSanctumToken ::
  "environment \<Rightarrow> int \<Rightarrow> request \<Rightarrow> string \<Rightarrow> world \<Rightarrow> (js_error + request) \<times> world" where
  "validateSanctumToken env now req tok w =
     (case getCachedValidation env now tok w of
        (Some cachedUser, w1) \<Rightarrow>
          (Inr (req\<lparr>auth := Some (authenticated_as cachedUser tok sanctum)\<rparr>), w1)
      | (None, w1) \<Rightarrow>
          (case sanctum_try env now req tok w1 of
             (Inr req', w2) \<Rightarrow> (Inr req', w2)
           | (Inl e, w2) \<Rightarrow>
               (Inl (Error ''Failed to validate Sanctum token''), sanctum_catch e w2)))"

section \<open>Local validation of JWT tokens\<close>

definition getJWTSecret :: "environment \<Rightarrow> world \<Rightarrow> string \<times> world" where
  "getJWTSecret env w =
     (let secret = env_or (JWT_SECRET env) ''change-me-in-production'' in
      if secret = ''change-me-in-production'' \<and> NODE_ENV env = Some ''production''
      then (secret, logger warn ''JWT_SECRET is using default value in production!'' w)
      else (secret, w))"

text \<open>\<^verbatim>\<open>a || b\<close> on identifiers.\<close>

definition or_id :: "json_id option \<Rightarrow> json_id option \<Rightarrow> json_id option" where
  "or_id a b = (if truthy_id a then a else b)"

definition validateJWTToken ::
  "environment \<Rightarrow> request \<Rightarrow> string \<Rightarrow> world \<Rightarrow> (js_error + request) \<times> world" where
  "validateJWTToken env req tok w =
     (case getJWTSecret env w of
        (secret, w1) \<Rightarrow>
          (let w2 = w1\<lparr>verified := verified w1 @ [(tok, secret)]\<rparr> in
           case jwt_verify env tok secret of
             Decoded d \<Rightarrow>
               (Inr (req\<lparr>auth := Some (authenticated_as
                        \<lparr>id_field = or_id (or_id (claim_userId d) (claim_sub d)) (claim_id d),
                         email = claim_email d,
                         nombre = claim_nombre d,
                         role = claim_role d,
                         roles = claim_roles d,
                         permissions = claim_permissions d\<rparr> tok jwt)\<rparr>),
                logger debug (''JWT token validated for user: '' @ show_str (claim_email d)) w2)
           | TokenExpiredError m \<Rightarrow>
               (Inl (Error ''Token expired''), logger warn (''JWT token expired: '' @ m) w2)
           | JsonWebTokenError m \<Rightarrow>
               (Inl (Error ''Invalid token''), logger warn (''Invalid JWT token: '' @ m) w2)
           | VerifyThrew e \<Rightarrow>
               (Inl (Error ''Token validation failed''),
                logger error (''JWT validation error: '' @ show_error e) w2)))"

section \<open>The middleware\<close>

text \<open>
  What a middleware leaves behind: the request, the response it sent if it sent one, how
  often it called \<^verbatim>\<open>next\<close>, and the module state.
\<close>

record handled =
  req_out :: request
  res_out :: "response option"
  next_calls :: nat
  world_out :: world

definition anonymous :: auth_context where
  "anonymous = \<lparr>authenticated = False, user = None, token = None, tokenType = None\<rparr>"

text \<open>
  \<^verbatim>\<open>authenticateRequest\<close>. The request starts anonymous. Without a token (null or the empty
  string) it goes on at once. Otherwise the token is classified and validated inside a
  \<^verbatim>\<open>try\<close>; a validator that throws leaves the request anonymous and its error in the log.
  \<^verbatim>\<open>next\<close> is called at the end of either path, and the response is never touched.
\<close>

definition authenticateRequest :: "environment \<Rightarrow> int \<Rightarrow> request \<Rightarrow> world \<Rightarrow> handled" where
  "authenticateRequest env now req w =
     (let req0 = req\<lparr>auth := Some anonymous\<rparr> in
      case extractToken req0 w of
        (t, w1) \<Rightarrow>
          if \<not> truthy_str t
          then \<lparr>req_out = req0, res_out = None, next_calls = 1,
                world_out = logger debug ''No token provided in request'' w1\<rparr>
          else
            (let tok = show_str t;
                 ty = detectTokenType tok;
                 w2 = logger debug
                        (''Processing '' @ show_token_type (Some ty) @ '' token: ''
                           @ substring0 tok 20 @ ''...'') w1
             in case (if ty = sanctum then validateSanctumToken env now req0 tok w2
                      else validateJWTToken env req0 tok w2) of
                  (Inr req1, w3) \<Rightarrow>
                    \<lparr>req_out = req1, res_out = None, next_calls = 1,
                     world_out = logger info
                       (''Authentication successful for user: ''
                          @ show_str (case auth req1 of None \<Rightarrow> None
                                      | Some a \<Rightarrow> (case user a of None \<Rightarrow> None | Some u \<Rightarrow> email u))
                          @ '' ('' @ show_token_type (case auth req1 of None \<Rightarrow> None
                                                      | Some a \<Rightarrow> tokenType a) @ '')'') w3\<rparr>
                | (Inl e, w3) \<Rightarrow>
                    \<lparr>req_out = req0\<lparr>auth := Some anonymous\<rparr>, res_out = None, next_calls = 1,
                     world_out = logger warn (''Authentication failed: '' @ show_error e) w3\<rparr>))"

text \<open>
  \<^verbatim>\<open>requireRole\<close>: 401 without an authenticated context; otherwise the role that is
  checked is \<^verbatim>\<open>user.role\<close>, or the first entry of \<^verbatim>\<open>user.roles\<close> when \<^verbatim>\<open>user.role\<close> is
  missing or empty; 403 when that role is missing, empty or not in the allowed list.
\<close>

definition userRole_of :: "auth_context \<Rightarrow> string option" where
  "userRole_of a =
     (let r = (case user a of None \<Rightarrow> None | Some u \<Rightarrow> role u) in
      if truthy_str r then r
      else (case user a of
              None \<Rightarrow> None
            | Some u \<Rightarrow> (case roles u of None \<Rightarrow> None | Some [] \<Rightarrow> None | Some (x # xs) \<Rightarrow> Some x)))"

definition requireRole :: "string list \<Rightarrow> request \<Rightarrow> world \<Rightarrow> handled" where
  "requireRole allowedRoles req w =
     (if \<not> (case auth req of None \<Rightarrow> False | Some a \<Rightarrow> authenticated a)
      then \<lparr>req_out = req,
            res_out = Some \<lparr>status = 401, error_field = ''Unauthorized'',
                            message_field = ''Authentication required''\<rparr>,
            next_calls = 0,
            world_out = logger warn ''Unauthorized access attempt (not authenticated)'' w\<rparr>
      else
        (let userRole = (case auth req of None \<Rightarrow> None | Some a \<Rightarrow> userRole_of a) in
         if \<not> truthy_str userRole \<or> \<not> (show_str userRole \<in> set allowedRoles)
         then \<lparr>req_out = req,
               res_out = Some \<lparr>status = 403, error_field = ''Forbidden'',
                               message_field = ''Insufficient permissions''\<rparr>,
               next_calls = 0,
               world_out = logger warn
                 (''Forbidden access attempt: user role '' @ [CHR 0x22] @ show_str userRole
                    @ [CHR 0x22] @ '' not in allowed roles: '' @ join '', '' allowedRoles) w\<rparr>
         else \<lparr>req_out = req, res_out = None, next_calls = 1, world_out = w\<rparr>))"

text \<open>
  The \<^verbatim>\<open>requireRole\<close> of the JWT-only middleware (\<^verbatim>\<open>middleware/authentication.js\<close>): 401
  without an authenticated context, and otherwise the request passes when some allowed
  role is among \<^verbatim>\<open>user.roles\<close>. The warning carries the request's details as context,
  which the log of the model leaves out.
\<close>

definition authentication_requireRole :: "string list \<Rightarrow> request \<Rightarrow> world \<Rightarrow> handled" where
  "authentication_requireRole allowedRoles req w =
     (if \<not> (case auth req of None \<Rightarrow> False | Some a \<Rightarrow> authenticated a)
      then \<lparr>req_out = req,
            res_out = Some \<lparr>status = 401, error_field = ''Unauthorized'',
                            message_field = ''Authentication required''\<rparr>,
            next_calls = 0, world_out = w\<rparr>
      else
        (let userRoles =
               (case auth req of
                  None \<Rightarrow> []
                | Some a \<Rightarrow>
                    (case user a of
                       None \<Rightarrow> []
                     | Some u \<Rightarrow> (case roles u of None \<Rightarrow> [] | Some rs \<Rightarrow> rs)));
             hasRole = list_ex (\<lambda>r. r \<in> set userRoles) allowedRoles
         in if \<not> hasRole
            then \<lparr>req_out = req,
                  res_out = Some \<lparr>status = 403, error_field = ''Forbidden'',
                                  message_field = ''Insufficient permissions''\<rparr>,
                  next_calls = 0,
                  world_out = logger warn ''Forbidden access attempt'' w\<rparr>
            else \<lparr>req_out = req, res_out = None, next_calls = 1, world_out = w\<rparr>))"

section \<open>Subgraph configuration\<close>

record SubgraphConfig =
  name :: string
  url :: string
  timeout :: "nat option"
  retries :: "nat option"

text \<open>\<^verbatim>\<open>process.env[envVar] || defaultUrl\<close>, with the process environment as a lookup.\<close>

definition getSubgraphURL :: "(string \<Rightarrow> string option) \<Rightarrow> string \<Rightarrow> string \<Rightarrow> string" where
  "getSubgraphURL penv envVar defaultUrl = env_or (penv envVar) defaultUrl"

definition subgraph_entry ::
  "(string \<Rightarrow> string option) \<Rightarrow> string list \<Rightarrow> string \<Rightarrow> string \<Rightarrow> string \<Rightarrow> SubgraphConfig list" where
  "subgraph_entry penv enabledServices nm envVar defaultUrl =
     (if nm \<in> set enabledServices
      then [\<lparr>name = nm, url = getSubgraphURL penv envVar defaultUrl,
             timeout = Some 10000, retries = Some 3\<rparr>]
      else [])"

text \<open>
  \<^verbatim>\<open>SUBGRAPH_CONFIG\<close>: the six known services in their fixed order, each present when its
  name is among the enabled services. \<open>enabledServices\<close> stands for the parsed
  \<^verbatim>\<open>ENABLED_SERVICES\<close> variable, whatever list of names that gives.
\<close>

definition SUBGRAPH_CONFIG :: "(string \<Rightarrow> string option) \<Rightarrow> string list \<Rightarrow> SubgraphConfig list" where
  "SUBGRAPH_CONFIG penv enabledServices =
     subgraph_entry penv enabledServices ''autentificacion'' ''MS_AUTENTIFICACION_URL''
       ''http://localhost:8000/graphql''
     @ subgraph_entry penv enabledServices ''despacho'' ''MS_DESPACHO_URL''
       ''http://localhost:8001/graphql''
     @ subgraph_entry penv enabledServices ''recepcion'' ''MS_RECEPCION_URL''
       ''http://localhost:8080/api/graphql''
     @ subgraph_entry penv enabledServices ''websocket'' ''MS_WEBSOCKET_URL''
       ''http://localhost:4004/graphql''
     @ subgraph_entry penv enabledServices ''decision'' ''MS_DECISION_URL''
       ''http://localhost:8002/graphql''
     @ subgraph_entry penv enabledServices ''ml_despacho'' ''MS_ML_DESPACHO_URL''
       ''http://localhost:5001/graphql''"

section \<open>Resilient service checker\<close>

text \<open>
  A JavaScript \<^verbatim>\<open>Set\<close> of strings keeps its members in insertion order without
  repetition: a list, with \<^verbatim>\<open>add\<close> appending a new member and \<^verbatim>\<open>delete\<close> removing one.
\<close>

definition set_add :: "string \<Rightarrow> string list \<Rightarrow> string list" where
  "set_add x xs = (if x \<in> set xs then xs else xs @ [x])"

definition set_delete :: "string \<Rightarrow> string list \<Rightarrow> string list" where
  "set_delete x xs = removeAll x xs"

text \<open>The two private sets of the class, and the logger calls of the module.\<close>

record ResilientServiceChecker =
  this_unavailableServices :: "string list"
  this_availableServices :: "string list"
  gateway_logged :: "(LogLevel \<times> string) list"

record ResilientGatewayStatus =
  availableServices :: "string list"
  unavailableServices :: "string list"
  totalConfigured :: nat

text \<open>
  What awaiting \<^verbatim>\<open>fetch\<close> gives: a response with its \<^verbatim>\<open>ok\<close> flag, or an exception (a
  connection error, or the abort after five seconds).
\<close>

datatype fetch_outcome = FetchResponse bool | FetchThrew

definition probe_url :: "SubgraphConfig \<Rightarrow> string" where
  "probe_url config = url config @ ''?query={__schema{types{name}}}''"

text \<open>
  The body of the loop of \<^verbatim>\<open>checkServiceHealth\<close> for one configured service, on the two
  local arrays and the object.
\<close>

definition probe_one ::
  "(string \<Rightarrow> fetch_outcome) \<Rightarrow> SubgraphConfig
     \<Rightarrow> string list \<times> string list \<times> ResilientServiceChecker
     \<Rightarrow> string list \<times> string list \<times> ResilientServiceChecker" where
  "probe_one fetch config st =
     (case st of (available, unavailable, this) \<Rightarrow>
        (case fetch (probe_url config) of
           FetchResponse True \<Rightarrow>
             (let this1 = this\<lparr>this_availableServices :=
                                 set_add (name config) (this_availableServices this)\<rparr> in
              (available @ [name config], unavailable,
               if name config \<in> set (this_unavailableServices this1)
               then this1\<lparr>gateway_logged := gateway_logged this1 @
                             [(info, ''[RESILIENT GATEWAY] '' @ [CHR 0xE2, CHR 0x9C, CHR 0x93]
                                      @ '' Service recovered: '' @ name config)],
                          this_unavailableServices :=
                            set_delete (name config) (this_unavailableServices this1)\<rparr>
               else this1))
         | FetchResponse False \<Rightarrow>
             (available, unavailable @ [name config],
              this\<lparr>this_unavailableServices :=
                     set_add (name config) (this_unavailableServices this)\<rparr>)
         | FetchThrew \<Rightarrow>
             (available, unavailable @ [name config],
              this\<lparr>this_unavailableServices :=
                     set_add (name config) (this_unavailableServices this)\<rparr>)))"

fun probe_all ::
  "(string \<Rightarrow> fetch_outcome) \<Rightarrow> SubgraphConfig list
     \<Rightarrow> string list \<times> string list \<times> ResilientServiceChecker
     \<Rightarrow> string list \<times> string list \<times> ResilientServiceChecker" where
  "probe_all fetch [] st = st"
| "probe_all fetch (config # rest) st = probe_all fetch rest (probe_one fetch config st)"

text \<open>
  \<^verbatim>\<open>checkServiceHealth\<close> over the configuration \<open>cfg\<close>: the services are probed one after
  the other, in the order of the configuration.
\<close>

definition checkServiceHealth ::
  "SubgraphConfig list \<Rightarrow> (string \<Rightarrow> fetch_outcome) \<Rightarrow> ResilientServiceChecker
     \<Rightarrow> ResilientGatewayStatus \<times> ResilientServiceChecker" where
  "checkServiceHealth cfg fetch this =
     (case probe_all fetch cfg ([], [], this) of
        (available, unavailable, this') \<Rightarrow>
          (\<lparr>availableServices = available, unavailableServices = unavailable,
            totalConfigured = length cfg\<rparr>, this'))"

definition getStatus :: "SubgraphConfig list \<Rightarrow> ResilientServiceChecker \<Rightarrow> ResilientGatewayStatus" where
  "getStatus cfg this =
     \<lparr>availableServices = this_availableServices this,
      unavailableServices = this_unavailableServices this,
      totalConfigured = length cfg\<rparr>"

text \<open>The object the module constructs: both sets empty.\<close>

definition resilientServiceChecker :: "SubgraphConfig list \<Rightarrow> ResilientServiceChecker" where
  "resilientServiceChecker cfg =
     \<lparr>this_unavailableServices = [], this_availableServices = [],
      gateway_logged =
        [(info, ''[RESILIENT GATEWAY] Initialized service checker for ''
                  @ show_nat (length cfg) @ '' service(s)'')]\<rparr>"

text \<open>A probe counts as reachable when the fetch answers with \<^verbatim>\<open>ok\<close>.\<close>

definition reachable :: "(string \<Rightarrow> fetch_outcome) \<Rightarrow> SubgraphConfig \<Rightarrow> bool" where
  "reachable fetch config = (fetch (probe_url config) = FetchResponse True)"

section \<open>Readiness flags of the server\<close>

text \<open>\<^verbatim>\<open>let serverStarted = false; let schemaReady = false;\<close>\<close>

record readiness =
  serverStarted :: bool
  schemaReady :: bool

definition readiness_at_boot :: readiness where
  "readiness_at_boot = \<lparr>serverStarted = False, schemaReady = False\<rparr>"

text \<open>How the promise of \<^verbatim>\<open>apolloServer.start()\<close> settles: once, one way or the other.\<close>

datatype start_outcome = StartResolved | StartRejected string

text \<open>The \<^verbatim>\<open>then\<close> and the \<^verbatim>\<open>catch\<close> callback of \<^verbatim>\<open>startupPromise\<close>.\<close>

definition on_start :: "start_outcome \<Rightarrow> readiness \<Rightarrow> readiness" where
  "on_start out r =
     (case out of
        StartResolved \<Rightarrow> r\<lparr>serverStarted := True, schemaReady := True\<rparr>
      | StartRejected errorMsg \<Rightarrow> r\<lparr>serverStarted := True, schemaReady := False\<rparr>)"

text \<open>
  What the composition engine does on its later polling cycles. The server passes the
  poll interval to the engine and registers no callback for the outcome of a cycle: the
  two callbacks above hold the only assignments to the flags. A cycle therefore leaves
  them as they are.
\<close>

datatype poll_outcome = PollComposed | PollFailed string

definition on_poll :: "poll_outcome \<Rightarrow> readiness \<Rightarrow> readiness" where
  "on_poll out r = r"

definition run_server :: "start_outcome \<Rightarrow> poll_outcome list \<Rightarrow> readiness" where
  "run_server out polls = fold on_poll polls (on_start out readiness_at_boot)"

section \<open>Sample inputs\<close>

text \<open>
  Concrete inputs for the closed theorems below. Nothing that is proved depends on the
  digest chosen here: every general theorem holds for every digest function.
\<close>

definition sample_user :: AuthUser where
  "sample_user =
     \<lparr>id_field = Some (IdNum 7), email = Some ''ana@example.org'', nombre = Some ''Ana'',
      role = Some ''USER'', roles = Some [''ADMIN''], permissions = None\<rparr>"

definition empty_world :: world where
  "empty_world = \<lparr>tokenCache = Map.empty, logged = [], posted = [], verified = []\<rparr>"

definition refused_reply :: axios_reply where
  "refused_reply =
     \<lparr>outcome = Rejected \<lparr>err_name = ''AxiosError'', err_code = Some ''ECONNREFUSED'',
                            err_message = ''connect ECONNREFUSED 127.0.0.1:8000''\<rparr>,
      elapsed = 3\<rparr>"

definition accepted_reply :: axios_reply where
  "accepted_reply =
     \<lparr>outcome = Resolved (Some \<lparr>errors = None, validateToken = Some sample_user\<rparr>),
      elapsed = 40\<rparr>"

text \<open>An environment whose authority is down and whose tokens have all expired.\<close>

definition down_env :: environment where
  "down_env =
     \<lparr>md5_hex = id, JWT_SECRET = None, NODE_ENV = None, MS_AUTENTIFICACION_URL = None,
      axios_post = (\<lambda>u t. refused_reply),
      jwt_verify = (\<lambda>t s. TokenExpiredError ''jwt expired'')\<rparr>"

text \<open>An environment whose authority accepts every token.\<close>

definition up_env :: environment where
  "up_env =
     \<lparr>md5_hex = id, JWT_SECRET = None, NODE_ENV = None, MS_AUTENTIFICACION_URL = None,
      axios_post = (\<lambda>u t. accepted_reply),
      jwt_verify = (\<lambda>t s. TokenExpiredError ''jwt expired'')\<rparr>"

text \<open>A request that presents the Sanctum token \<^verbatim>\<open>1|abc\<close>.\<close>

definition bearer_request :: request where
  "bearer_request = \<lparr>authorization = Some ''Bearer 1|abc'', auth = None\<rparr>"

text \<open>A cache that holds that token, validated at time 0, so that it expires at 300000.\<close>

definition stale_world :: world where
  "stale_world = cacheValidation down_env 0 ''1|abc'' sample_user empty_world"

text \<open>A request authenticated as the sample user: role USER, roles ADMIN.\<close>

definition user_request :: request where
  "user_request =
     \<lparr>authorization = Some ''Bearer 1|abc'',
      auth = Some (authenticated_as sample_user ''1|abc'' sanctum)\<rparr>"

text \<open>A request authenticated as a user without role whose roles are USER and ADMIN.\<close>

definition roles_only_user :: AuthUser where
  "roles_only_user =
     \<lparr>id_field = Some (IdNum 8), email = Some ''eva@example.org'', nombre = None,
      role = None, roles = Some [''USER'', ''ADMIN''], permissions = None\<rparr>"

definition roles_only_request :: request where
  "roles_only_request =
     \<lparr>authorization = Some ''Bearer eyJhbGciOiJIUzI1NiJ9'',
      auth = Some (authenticated_as roles_only_user ''eyJhbGciOiJIUzI1NiJ9'' jwt)\<rparr>"

text \<open>A process environment that sets no variable, and three states of the network.\<close>

definition no_env :: "string \<Rightarrow> string option" where
  "no_env v = None"

definition all_up :: "string \<Rightarrow> fetch_outcome" where
  "all_up u = FetchResponse True"

definition all_down :: "string \<Rightarrow> fetch_outcome" where
  "all_down u = FetchThrew"

definition only_despacho_up :: "string \<Rightarrow> fetch_outcome" where
  "only_despacho_up u =
     (if u = ''http://localhost:8001/graphql?query={__schema{types{name}}}''
      then FetchResponse True else FetchResponse False)"

definition despacho :: SubgraphConfig where
  "despacho =
     \<lparr>name = ''despacho'', url = ''http://localhost:8001/graphql'',
      timeout = Some 10000, retries = Some 3\<rparr>"

section \<open>Notions used in the statements\<close>

text \<open>What the authority answers for a token, at the url the environment configures.\<close>

definition authority_reply :: "environment \<Rightarrow> string \<Rightarrow> axios_reply" where
  "authority_reply env tok =
     axios_post env (env_or (MS_AUTENTIFICACION_URL env) ''http://localhost:8000/graphql'') tok"

text \<open>
  A failed remote validation: a transport failure, a body that is not an object, an
  \<^verbatim>\<open>errors\<close> array in the body, no user data, or user data whose id is missing or falsy.
\<close>

definition remote_failure :: "axios_outcome \<Rightarrow> bool" where
  "remote_failure out =
     (case out of
        Rejected e \<Rightarrow> True
      | Resolved None \<Rightarrow> True
      | Resolved (Some b) \<Rightarrow>
          (case errors b of
             Some errs \<Rightarrow> True
           | None \<Rightarrow> (case validateToken b of None \<Rightarrow> True | Some u \<Rightarrow> \<not> truthy_id (id_field u))))"

text \<open>The cache holds nothing usable for a token at time \<open>now\<close>: no entry, or an expired one.\<close>

definition cache_miss :: "environment \<Rightarrow> int \<Rightarrow> string \<Rightarrow> world \<Rightarrow> bool" where
  "cache_miss env now tok w =
     (case tokenCache w (getCacheKey env tok) of None \<Rightarrow> True | Some c \<Rightarrow> expiresAt c < now)"

text \<open>What \<^verbatim>\<open>jwt.verify\<close> answers for a token under the configured secret.\<close>

definition local_verdict :: "environment \<Rightarrow> string \<Rightarrow> jwt_result" where
  "local_verdict env tok = jwt_verify env tok (env_or (JWT_SECRET env) ''change-me-in-production'')"

text \<open>A failed local validation: expired, invalid, or any other exception of the library.\<close>

definition jwt_failure :: "jwt_result \<Rightarrow> bool" where
  "jwt_failure r = (case r of Decoded d \<Rightarrow> False | TokenExpiredError m \<Rightarrow> True
                    | JsonWebTokenError m \<Rightarrow> True | VerifyThrew e \<Rightarrow> True)"

text \<open>
  The role set of an identity in the words of the specification: its role together with
  all entries of its roles.
\<close>

definition spec_role_set :: "AuthUser \<Rightarrow> string set" where
  "spec_role_set u =
     (case role u of None \<Rightarrow> {} | Some r \<Rightarrow> {r}) \<union> (case roles u of None \<Rightarrow> {} | Some rs \<Rightarrow> set rs)"

text \<open>Several health checks in a row, each with the fetch results of its own moment.\<close>

definition health_runs ::
  "SubgraphConfig list \<Rightarrow> (string \<Rightarrow> fetch_outcome) list \<Rightarrow> ResilientServiceChecker
     \<Rightarrow> ResilientServiceChecker" where
  "health_runs cfg fetches this = fold (\<lambda>fetch s. snd (checkServiceHealth cfg fetch s)) fetches this"

section \<open>Properties\<close>

lemma includes_single: "includes_js s [c] = (c \<in> set s)"
  by (induction s) auto

text \<open>
  Claim C8. The classifier answers sanctum exactly for the credentials that contain the
  pipe character and jwt for all the others. It is a function of the credential alone:
  it takes no state and returns none.
\<close>

theorem detectTokenType_pipe:
  "detectTokenType t = (if CHR ''|'' \<in> set t then sanctum else jwt)"
  by (simp add: detectTokenType_def includes_single)

text \<open>A Sanctum token and a token without a pipe.\<close>

theorem detectTokenType_pipe_witness:
  "detectTokenType ''1|abc'' = sanctum \<and> detectTokenType ''eyJhbGciOiJIUzI1NiJ9'' = jwt"
  using detectTokenType_pipe [of "''1|abc''"] detectTokenType_pipe [of "''eyJhbGciOiJIUzI1NiJ9''"]
  by simp

subsection \<open>Validation cache\<close>

lemma tokenCache_logger [simp]: "tokenCache (logger l m w) = tokenCache w"
  by (simp add: logger_def)

lemma cached_entry:
  "tokenCache (cacheValidation env T tok u w) (getCacheKey env tok) =
     Some \<lparr>userData = u, expiresAt = T + 300000\<rparr>"
  by (simp add: cacheValidation_def CACHE_TTL_SECONDS_def Let_def)

lemma get_hit_iff:
  "fst (getCachedValidation env now tok w) = Some u \<longleftrightarrow>
     (\<exists>c. tokenCache w (getCacheKey env tok) = Some c \<and> userData c = u \<and> now \<le> expiresAt c)"
  by (auto simp: getCachedValidation_def Let_def split: option.splits)

text \<open>
  Claim C1, as the code has it. Time is in milliseconds, so the default TTL is 300000.
  An identity cached at time \<open>T\<close> is returned unchanged by every lookup of the same
  token at a time up to and including \<open>T + 300000\<close>; a lookup at any later time is a
  miss and deletes the entry. A lookup never returns an entry at a time later than its
  \<open>expiresAt\<close>.
\<close>

theorem cache_ttl_window:
  "fst (getCachedValidation env now tok (cacheValidation env T tok u w)) =
     (if now \<le> T + 300000 then Some u else None)
   \<and> (T + 300000 < now \<longrightarrow>
        tokenCache (snd (getCachedValidation env now tok (cacheValidation env T tok u w)))
          (getCacheKey env tok) = None)
   \<and> (fst (getCachedValidation env now tok w') = Some u' \<longrightarrow>
        (\<exists>c. tokenCache w' (getCacheKey env tok) = Some c \<and> userData c = u' \<and> now \<le> expiresAt c))"
proof (intro conjI impI)
  show "fst (getCachedValidation env now tok (cacheValidation env T tok u w)) =
     (if now \<le> T + 300000 then Some u else None)"
    by (simp add: getCachedValidation_def cached_entry Let_def)
next
  assume "T + 300000 < now"
  then show "tokenCache (snd (getCachedValidation env now tok (cacheValidation env T tok u w)))
          (getCacheKey env tok) = None"
    by (simp add: getCachedValidation_def cached_entry Let_def)
next
  assume "fst (getCachedValidation env now tok w') = Some u'"
  then show "\<exists>c. tokenCache w' (getCacheKey env tok) = Some c \<and> userData c = u' \<and> now \<le> expiresAt c"
    by (simp add: get_hit_iff)
qed

text \<open>The three parts at a token cached at time 0 and read at 299999 and at 300001.\<close>

theorem cache_ttl_window_witness:
  "fst (getCachedValidation up_env 300001 ''1|abc''
          (cacheValidation up_env 0 ''1|abc'' sample_user empty_world)) = None
   \<and> tokenCache (snd (getCachedValidation up_env 300001 ''1|abc''
          (cacheValidation up_env 0 ''1|abc'' sample_user empty_world)))
        (getCacheKey up_env ''1|abc'') = None
   \<and> fst (getCachedValidation up_env 299999 ''1|abc''
          (cacheValidation up_env 0 ''1|abc'' sample_user empty_world)) = Some sample_user
   \<and> (\<exists>c. tokenCache (cacheValidation up_env 0 ''1|abc'' sample_user empty_world)
            (getCacheKey up_env ''1|abc'') = Some c
          \<and> userData c = sample_user \<and> 299999 \<le> expiresAt c)"
  using cache_ttl_window [where env = up_env and now = 300001 and tok = "''1|abc''" and T = 0
                            and u = sample_user and w = empty_world]
        cache_ttl_window [where env = up_env and now = 299999 and tok = "''1|abc''" and T = 0
                            and u = sample_user and w = empty_world and u' = sample_user
                            and w' = "cacheValidation up_env 0 ''1|abc'' sample_user empty_world"]
  by simp

text \<open>
  A lookup at exactly \<open>T + 300000\<close>, which is not before the end of the TTL, is still a
  hit: the code evicts on \<^verbatim>\<open>now > expiresAt\<close> only.
\<close>

theorem cache_read_at_expiry_counterexample:
  "(0::int) + 300 * 1000 \<le> 300000
   \<and> fst (getCachedValidation up_env 300000 ''1|abc''
            (cacheValidation up_env 0 ''1|abc'' sample_user empty_world)) = Some sample_user"
  by (simp add: getCachedValidation_def cached_entry Let_def)

subsection \<open>Validators and the authentication gate\<close>

lemma posted_logger [simp]: "posted (logger l m w) = posted w"
  by (simp add: logger_def)

lemma verified_logger [simp]: "verified (logger l m w) = verified w"
  by (simp add: logger_def)

lemma tokenCache_sanctum_catch [simp]: "tokenCache (sanctum_catch e w) = tokenCache w"
  by (simp add: sanctum_catch_def)

lemma posted_sanctum_catch [simp]: "posted (sanctum_catch e w) = posted w"
  by (simp add: sanctum_catch_def)

lemma posted_cacheValidation [simp]: "posted (cacheValidation env T tok u w) = posted w"
  by (simp add: cacheValidation_def Let_def)

lemma extractToken_auth [simp]: "extractToken (req\<lparr>auth := a\<rparr>) w = extractToken req w"
  by (simp add: extractToken_def)

lemma tokenCache_extractToken [simp]: "tokenCache (snd (extractToken req w)) = tokenCache w"
  by (simp add: extractToken_def Let_def)

lemma posted_extractToken [simp]: "posted (snd (extractToken req w)) = posted w"
  by (simp add: extractToken_def Let_def)

lemma cache_miss_cong: "tokenCache w = tokenCache w' \<Longrightarrow> cache_miss env now tok w = cache_miss env now tok w'"
  by (simp add: cache_miss_def)

lemma get_miss:
  "cache_miss env now tok w \<Longrightarrow>
     getCachedValidation env now tok w =
       (None, w\<lparr>tokenCache := (tokenCache w)(getCacheKey env tok := None)\<rparr>)"
  by (auto simp: cache_miss_def getCachedValidation_def Let_def fun_upd_idem split: option.splits)

lemma get_hit:
  "tokenCache w (getCacheKey env tok) = Some c \<Longrightarrow> now \<le> expiresAt c \<Longrightarrow>
     getCachedValidation env now tok w =
       (Some (userData c),
        logger debug (''Token validation cache hit for token: '' @ substring0 tok 10 @ ''...'') w)"
  by (simp add: getCachedValidation_def Let_def)

lemma sanctum_try_fail:
  assumes "remote_failure (outcome (authority_reply env tok))"
  shows "\<exists>e. fst (sanctum_try env now req tok w) = Inl e"
    and "tokenCache (snd (sanctum_try env now req tok w)) = tokenCache w"
  using assms
  by (auto simp: sanctum_try_def remote_failure_def authority_reply_def Let_def
           split: axios_outcome.splits option.splits list.splits)

lemma sanctum_try_ok:
  assumes "\<not> remote_failure (outcome (authority_reply env tok))"
  shows "\<exists>u. fst (sanctum_try env now req tok w) = Inr (req\<lparr>auth := Some (authenticated_as u tok sanctum)\<rparr>)
           \<and> tokenCache (snd (sanctum_try env now req tok w)) =
               (tokenCache w)(getCacheKey env tok \<mapsto>
                  \<lparr>userData = u, expiresAt = now + int (elapsed (authority_reply env tok)) + 300000\<rparr>)"
  using assms
  by (auto simp: sanctum_try_def remote_failure_def authority_reply_def Let_def
                 cacheValidation_def CACHE_TTL_SECONDS_def
           split: axios_outcome.splits option.splits list.splits)

lemma posted_sanctum_try:
  "posted (snd (sanctum_try env now req tok w)) =
     posted w @ [(env_or (MS_AUTENTIFICACION_URL env) ''http://localhost:8000/graphql'', tok)]"
  by (auto simp: sanctum_try_def Let_def
           split: axios_outcome.splits option.splits list.splits)

lemma validateSanctumToken_fail:
  assumes "cache_miss env now tok w" "remote_failure (outcome (authority_reply env tok))"
  shows "fst (validateSanctumToken env now req tok w) = Inl (Error ''Failed to validate Sanctum token'')"
    and "tokenCache (snd (validateSanctumToken env now req tok w)) =
           (tokenCache w)(getCacheKey env tok := None)"
    and "posted (snd (validateSanctumToken env now req tok w)) =
           posted w @ [(env_or (MS_AUTENTIFICACION_URL env) ''http://localhost:8000/graphql'', tok)]"
proof -
  let ?w1 = "w\<lparr>tokenCache := (tokenCache w)(getCacheKey env tok := None)\<rparr>"
  obtain e where e: "fst (sanctum_try env now req tok ?w1) = Inl e"
    using sanctum_try_fail(1) [OF assms(2)] by blast
  have v: "validateSanctumToken env now req tok w =
          (Inl (Error ''Failed to validate Sanctum token''),
           sanctum_catch e (snd (sanctum_try env now req tok ?w1)))"
    using e by (auto simp: validateSanctumToken_def get_miss [OF assms(1)] split: prod.splits)
  show "fst (validateSanctumToken env now req tok w) = Inl (Error ''Failed to validate Sanctum token'')"
    by (simp add: v)
  show "tokenCache (snd (validateSanctumToken env now req tok w)) =
           (tokenCache w)(getCacheKey env tok := None)"
    by (simp add: v sanctum_try_fail(2) [OF assms(2)])
  show "posted (snd (validateSanctumToken env now req tok w)) =
           posted w @ [(env_or (MS_AUTENTIFICACION_URL env) ''http://localhost:8000/graphql'', tok)]"
    by (simp add: v posted_sanctum_try)
qed

lemma validateJWTToken_fail:
  assumes "jwt_failure (local_verdict env tok)"
  shows "\<exists>e. fst (validateJWTToken env req tok w) = Inl e"
  using assms
  by (auto simp: validateJWTToken_def jwt_failure_def local_verdict_def getJWTSecret_def Let_def
           split: jwt_result.splits)

lemma authenticateRequest_next:
  "next_calls (authenticateRequest env now req w) = 1 \<and> res_out (authenticateRequest env now req w) = None"
  by (simp add: authenticateRequest_def Let_def split: prod.splits sum.splits)

lemma logged_logger: "logged (logger l m w) = logged w @ [(l, m)]"
  by (simp add: logger_def)

lemma authenticateRequest_failed:
  assumes "fst (extractToken req w) = Some tok" "tok \<noteq> []"
    and "fst (if detectTokenType tok = sanctum
              then validateSanctumToken env now (req\<lparr>auth := Some anonymous\<rparr>) tok
                     (logger debug (''Processing '' @ show_token_type (Some (detectTokenType tok))
                        @ '' token: '' @ substring0 tok 20 @ ''...'') (snd (extractToken req w)))
              else validateJWTToken env (req\<lparr>auth := Some anonymous\<rparr>) tok
                     (logger debug (''Processing '' @ show_token_type (Some (detectTokenType tok))
                        @ '' token: '' @ substring0 tok 20 @ ''...'') (snd (extractToken req w)))) = Inl e"
  shows "\<exists>w'. authenticateRequest env now req w =
           \<lparr>req_out = req\<lparr>auth := Some anonymous\<rparr>, res_out = None, next_calls = 1,
            world_out = logger warn (''Authentication failed: '' @ show_error e) w'\<rparr>"
  using assms
  by (auto simp: authenticateRequest_def Let_def split: prod.splits sum.splits)

lemma authenticateRequest_auth:
  "\<exists>a. auth (req_out (authenticateRequest env now req w)) = Some a"
  by (auto simp: authenticateRequest_def Let_def validateSanctumToken_def validateJWTToken_def
                 sanctum_try_def
           split: prod.splits sum.splits option.splits jwt_result.splits axios_outcome.splits
                  list.splits if_splits)

text \<open>
  Claim C2. Whatever the request, the environment and the cache, the middleware calls
  next exactly once, sends no response and leaves an auth context on the request; the
  model has no other way out of the function, as the source has none outside its
  \<^verbatim>\<open>try\<close>. When a token is presented and its validator fails (for a Sanctum token: nothing
  usable in the cache and a failed remote validation; for a JWT: a failed verification),
  the context is the bare anonymous one, without user, token or scheme, and the error
  has gone to a warning in the log.
\<close>

theorem authenticateRequest_never_fails:
  "next_calls (authenticateRequest env now req w) = 1
   \<and> res_out (authenticateRequest env now req w) = None
   \<and> (\<exists>a. auth (req_out (authenticateRequest env now req w)) = Some a)
   \<and> (fst (extractToken req w) = Some tok \<and> tok \<noteq> [] \<and>
        (if detectTokenType tok = sanctum
         then cache_miss env now tok w \<and> remote_failure (outcome (authority_reply env tok))
         else jwt_failure (local_verdict env tok))
      \<longrightarrow> req_out (authenticateRequest env now req w) = req\<lparr>auth := Some anonymous\<rparr>
          \<and> (\<exists>e. last (logged (world_out (authenticateRequest env now req w))) =
                    (warn, ''Authentication failed: '' @ show_error e)))"
proof (intro conjI impI)
  show "next_calls (authenticateRequest env now req w) = 1"
    by (simp add: authenticateRequest_next)
  show "res_out (authenticateRequest env now req w) = None"
    by (simp add: authenticateRequest_next)
  show "\<exists>a. auth (req_out (authenticateRequest env now req w)) = Some a"
    by (rule authenticateRequest_auth)
next
  let ?w2 = "logger debug (''Processing '' @ show_token_type (Some (detectTokenType tok))
                @ '' token: '' @ substring0 tok 20 @ ''...'') (snd (extractToken req w))"
  let ?r = "if detectTokenType tok = sanctum
            then validateSanctumToken env now (req\<lparr>auth := Some anonymous\<rparr>) tok ?w2
            else validateJWTToken env (req\<lparr>auth := Some anonymous\<rparr>) tok ?w2"
  assume h: "fst (extractToken req w) = Some tok \<and> tok \<noteq> [] \<and>
        (if detectTokenType tok = sanctum
         then cache_miss env now tok w \<and> remote_failure (outcome (authority_reply env tok))
         else jwt_failure (local_verdict env tok))"
  have "\<exists>e. fst ?r = Inl e"
  proof (cases "detectTokenType tok = sanctum")
    case True
    with h have m: "cache_miss env now tok w"
      and f: "remote_failure (outcome (authority_reply env tok))" by simp_all
    have "cache_miss env now tok ?w2"
      using m cache_miss_cong [of ?w2 w env now tok] by simp
    then show ?thesis
      using True validateSanctumToken_fail(1) [OF _ f] by simp
  next
    case False
    with h have "jwt_failure (local_verdict env tok)" by simp
    then show ?thesis
      using False validateJWTToken_fail by simp
  qed
  then obtain e where e: "fst ?r = Inl e" by blast
  obtain w' where eq: "authenticateRequest env now req w =
           \<lparr>req_out = req\<lparr>auth := Some anonymous\<rparr>, res_out = None, next_calls = 1,
            world_out = logger warn (''Authentication failed: '' @ show_error e) w'\<rparr>"
    using h e authenticateRequest_failed [of req w tok env now e] by blast
  show "req_out (authenticateRequest env now req w) = req\<lparr>auth := Some anonymous\<rparr>"
    by (simp add: eq)
  show "\<exists>e. last (logged (world_out (authenticateRequest env now req w))) =
                    (warn, ''Authentication failed: '' @ show_error e)"
    by (auto simp: eq logged_logger)
qed

text \<open>A Sanctum token against an authority that refuses the connection.\<close>

theorem authenticateRequest_never_fails_witness:
  "fst (extractToken \<lparr>authorization = Some ''Bearer 1|abc'', auth = None\<rparr> empty_world) = Some ''1|abc''
   \<and> detectTokenType ''1|abc'' = sanctum
   \<and> cache_miss down_env 0 ''1|abc'' empty_world
   \<and> remote_failure (outcome (authority_reply down_env ''1|abc''))
   \<and> next_calls (authenticateRequest down_env 0
         \<lparr>authorization = Some ''Bearer 1|abc'', auth = None\<rparr> empty_world) = 1
   \<and> res_out (authenticateRequest down_env 0
         \<lparr>authorization = Some ''Bearer 1|abc'', auth = None\<rparr> empty_world) = None
   \<and> req_out (authenticateRequest down_env 0
         \<lparr>authorization = Some ''Bearer 1|abc'', auth = None\<rparr> empty_world) =
       \<lparr>authorization = Some ''Bearer 1|abc'', auth = Some anonymous\<rparr>"
proof -
  have x: "fst (extractToken \<lparr>authorization = Some ''Bearer 1|abc'', auth = None\<rparr> empty_world) = Some ''1|abc''"
    by (simp add: extractToken_def Let_def)
  have d: "detectTokenType ''1|abc'' = sanctum"
    by (simp add: detectTokenType_def)
  have m: "cache_miss down_env 0 ''1|abc'' empty_world"
    by (simp add: cache_miss_def empty_world_def)
  have f: "remote_failure (outcome (authority_reply down_env ''1|abc''))"
    by (simp add: remote_failure_def authority_reply_def down_env_def refused_reply_def)
  show ?thesis
    using x d m f
      authenticateRequest_never_fails [where env = down_env and now = 0 and w = empty_world
        and req = "\<lparr>authorization = Some ''Bearer 1|abc'', auth = None\<rparr>" and tok = "''1|abc''"]
    by simp
qed

lemma extractToken_malformed:
  assumes "authorization req = None \<or>
           (\<exists>h. authorization req = Some h \<and>
                (length (split_js CHR '' '' h) \<noteq> 2 \<or> hd (split_js CHR '' '' h) \<noteq> ''Bearer''))"
  shows "extractToken req w =
           (None, w\<lparr>logged := logged w @
              (if truthy_str (authorization req)
               then [(debug, ''Invalid Authorization header format: ''
                        @ hd (split_js CHR '' '' (show_str (authorization req))))]
               else [])\<rparr>)"
  using assms by (auto simp: extractToken_def logger_def Let_def)

text \<open>
  Claim C5. When the Authorization header is absent, or does not split at spaces into
  exactly two parts, or its first part is not Bearer, the middleware leaves the request
  anonymous, sends no response and calls next once. The cache, the list of calls to the
  authority and the list of calls to the JWT library are as before, and the log gains the
  messages of the extraction only: no token was classified or validated.
\<close>

theorem malformed_header_anonymous:
  assumes "authorization req = None \<or>
           (\<exists>h. authorization req = Some h \<and>
                (length (split_js CHR '' '' h) \<noteq> 2 \<or> hd (split_js CHR '' '' h) \<noteq> ''Bearer''))"
  shows "authenticateRequest env now req w =
           \<lparr>req_out = req\<lparr>auth := Some anonymous\<rparr>, res_out = None, next_calls = 1,
            world_out = w\<lparr>logged := logged w @
              (if truthy_str (authorization req)
               then [(debug, ''Invalid Authorization header format: ''
                        @ hd (split_js CHR '' '' (show_str (authorization req))))]
               else [])
              @ [(debug, ''No token provided in request'')]\<rparr>\<rparr>"
proof -
  have "extractToken (req\<lparr>auth := Some anonymous\<rparr>) w =
           (None, w\<lparr>logged := logged w @
              (if truthy_str (authorization req)
               then [(debug, ''Invalid Authorization header format: ''
                        @ hd (split_js CHR '' '' (show_str (authorization req))))]
               else [])\<rparr>)"
    using assms extractToken_malformed [of req w] by simp
  then show ?thesis
    by (simp add: authenticateRequest_def Let_def logger_def)
qed

text \<open>The header \<^verbatim>\<open>Token xyz\<close>: two parts, the first of which is not Bearer.\<close>

theorem malformed_header_anonymous_witness:
  "length (split_js CHR '' '' ''Token xyz'') = 2
   \<and> hd (split_js CHR '' '' ''Token xyz'') \<noteq> ''Bearer''
   \<and> authenticateRequest down_env 0 \<lparr>authorization = Some ''Token xyz'', auth = None\<rparr> empty_world =
       \<lparr>req_out = \<lparr>authorization = Some ''Token xyz'', auth = Some anonymous\<rparr>,
        res_out = None, next_calls = 1,
        world_out = \<lparr>tokenCache = Map.empty,
                     logged = [(debug, ''Invalid Authorization header format: Token''),
                               (debug, ''No token provided in request'')],
                     posted = [], verified = []\<rparr>\<rparr>"
  using malformed_header_anonymous [of "\<lparr>authorization = Some ''Token xyz'', auth = None\<rparr>"
          down_env 0 empty_world]
  by (simp add: empty_world_def)

subsection \<open>Remote validation and the cache\<close>

lemma validateSanctumToken_hit:
  assumes "tokenCache w (getCacheKey env tok) = Some c" "now \<le> expiresAt c"
  shows "validateSanctumToken env now req tok w =
           (Inr (req\<lparr>auth := Some (authenticated_as (userData c) tok sanctum)\<rparr>),
            logger debug (''Token validation cache hit for token: '' @ substring0 tok 10 @ ''...'') w)"
  by (simp add: validateSanctumToken_def get_hit [OF assms])

lemma posted_validateSanctumToken_miss:
  assumes "cache_miss env now tok w"
  shows "posted (snd (validateSanctumToken env now req tok w)) =
           posted w @ [(env_or (MS_AUTENTIFICACION_URL env) ''http://localhost:8000/graphql'', tok)]"
proof -
  let ?w1 = "w\<lparr>tokenCache := (tokenCache w)(getCacheKey env tok := None)\<rparr>"
  obtain r w2 where t: "sanctum_try env now req tok ?w1 = (r, w2)"
    by (cases "sanctum_try env now req tok ?w1")
  have p: "posted w2 =
             posted w @ [(env_or (MS_AUTENTIFICACION_URL env) ''http://localhost:8000/graphql'', tok)]"
    using posted_sanctum_try [of env now req tok ?w1] t by simp
  show ?thesis
    by (cases r) (simp_all add: validateSanctumToken_def get_miss [OF assms] t p)
qed

lemma posted_validateSanctumToken_le:
  "length (posted (snd (validateSanctumToken env now req tok w))) \<le> length (posted w) + 1"
proof (cases "cache_miss env now tok w")
  case True
  then show ?thesis
    by (simp add: posted_validateSanctumToken_miss)
next
  case False
  then obtain c where "tokenCache w (getCacheKey env tok) = Some c" "now \<le> expiresAt c"
    by (auto simp: cache_miss_def split: option.splits)
  then show ?thesis
    by (simp add: validateSanctumToken_hit)
qed

lemma validateSanctumToken_success_entry:
  assumes "fst (validateSanctumToken env now req tok w) = Inr r"
  shows "\<exists>c. tokenCache (snd (validateSanctumToken env now req tok w)) (getCacheKey env tok) = Some c
            \<and> now \<le> expiresAt c
            \<and> r = req\<lparr>auth := Some (authenticated_as (userData c) tok sanctum)\<rparr>
            \<and> (cache_miss env now tok w \<longrightarrow>
                 expiresAt c = now + int (elapsed (authority_reply env tok)) + 300000)"
proof (cases "cache_miss env now tok w")
  case True
  show ?thesis
  proof (cases "remote_failure (outcome (authority_reply env tok))")
    case True
    with \<open>cache_miss env now tok w\<close> assms show ?thesis
      by (simp add: validateSanctumToken_fail(1))
  next
    case False
    let ?w1 = "w\<lparr>tokenCache := (tokenCache w)(getCacheKey env tok := None)\<rparr>"
    from sanctum_try_ok [OF False, of now req ?w1]
    obtain u where u: "fst (sanctum_try env now req tok ?w1) =
                         Inr (req\<lparr>auth := Some (authenticated_as u tok sanctum)\<rparr>)"
      and t: "tokenCache (snd (sanctum_try env now req tok ?w1)) =
               (tokenCache ?w1)(getCacheKey env tok \<mapsto>
                  \<lparr>userData = u, expiresAt = now + int (elapsed (authority_reply env tok)) + 300000\<rparr>)"
      by blast
    have v: "validateSanctumToken env now req tok w =
               (Inr (req\<lparr>auth := Some (authenticated_as u tok sanctum)\<rparr>),
                snd (sanctum_try env now req tok ?w1))"
      using u by (auto simp: validateSanctumToken_def get_miss [OF True] split: prod.splits)
    show ?thesis
      using assms by (simp add: v t)
  qed
next
  case False
  then obtain c where c: "tokenCache w (getCacheKey env tok) = Some c" "now \<le> expiresAt c"
    by (auto simp: cache_miss_def split: option.splits)
  show ?thesis
    using assms c False by (auto simp: validateSanctumToken_hit [OF c])
qed


text \<open>
  Claim C6. When the cache holds an entry for the credential that has not expired at the
  time of the lookup, remote validation returns the cached identity, posts nothing to the
  authority and leaves the cache as it is. Hence, for two validations of one credential
  in a row: when the first succeeds, the cache then holds an entry for the credential
  (written \<open>300000\<close> ms after the authority's answer when the first was a miss), and a
  second validation at any time within that entry's TTL is served from it, with the same
  identity, so that both together post at most once.
\<close>

theorem cached_validation_skips_authority:
  "(tokenCache w (getCacheKey env tok) = Some c \<and> now \<le> expiresAt c \<longrightarrow>
      fst (validateSanctumToken env now req tok w) =
        Inr (req\<lparr>auth := Some (authenticated_as (userData c) tok sanctum)\<rparr>)
      \<and> posted (snd (validateSanctumToken env now req tok w)) = posted w
      \<and> tokenCache (snd (validateSanctumToken env now req tok w)) = tokenCache w)
   \<and> (fst (validateSanctumToken env t1 req tok w) = Inr r1 \<longrightarrow>
        (\<exists>c1. tokenCache (snd (validateSanctumToken env t1 req tok w)) (getCacheKey env tok) = Some c1
           \<and> t1 \<le> expiresAt c1
           \<and> r1 = req\<lparr>auth := Some (authenticated_as (userData c1) tok sanctum)\<rparr>
           \<and> (cache_miss env t1 tok w \<longrightarrow>
                expiresAt c1 = t1 + int (elapsed (authority_reply env tok)) + 300000)
           \<and> (t2 \<le> expiresAt c1 \<longrightarrow>
                fst (validateSanctumToken env t2 req2 tok (snd (validateSanctumToken env t1 req tok w))) =
                  Inr (req2\<lparr>auth := Some (authenticated_as (userData c1) tok sanctum)\<rparr>)
                \<and> length (posted (snd (validateSanctumToken env t2 req2 tok
                                          (snd (validateSanctumToken env t1 req tok w)))))
                    \<le> length (posted w) + 1)))"
proof (intro conjI impI)
  assume "tokenCache w (getCacheKey env tok) = Some c \<and> now \<le> expiresAt c"
  then have c: "tokenCache w (getCacheKey env tok) = Some c" "now \<le> expiresAt c" by simp_all
  show "fst (validateSanctumToken env now req tok w) =
        Inr (req\<lparr>auth := Some (authenticated_as (userData c) tok sanctum)\<rparr>)"
    by (simp add: validateSanctumToken_hit [OF c])
  show "posted (snd (validateSanctumToken env now req tok w)) = posted w"
    by (simp add: validateSanctumToken_hit [OF c])
  show "tokenCache (snd (validateSanctumToken env now req tok w)) = tokenCache w"
    by (simp add: validateSanctumToken_hit [OF c])
next
  let ?w1 = "snd (validateSanctumToken env t1 req tok w)"
  assume ok: "fst (validateSanctumToken env t1 req tok w) = Inr r1"
  from validateSanctumToken_success_entry [OF ok]
  obtain c1 where c1: "tokenCache ?w1 (getCacheKey env tok) = Some c1" "t1 \<le> expiresAt c1"
    and r1: "r1 = req\<lparr>auth := Some (authenticated_as (userData c1) tok sanctum)\<rparr>"
    and fresh: "cache_miss env t1 tok w \<longrightarrow>
                  expiresAt c1 = t1 + int (elapsed (authority_reply env tok)) + 300000"
    by blast
  have second: "t2 \<le> expiresAt c1 \<longrightarrow>
                fst (validateSanctumToken env t2 req2 tok ?w1) =
                  Inr (req2\<lparr>auth := Some (authenticated_as (userData c1) tok sanctum)\<rparr>)
                \<and> length (posted (snd (validateSanctumToken env t2 req2 tok ?w1)))
                    \<le> length (posted w) + 1"
  proof
    assume t2: "t2 \<le> expiresAt c1"
    have "posted (snd (validateSanctumToken env t2 req2 tok ?w1)) = posted ?w1"
      by (simp add: validateSanctumToken_hit [OF c1(1) t2])
    moreover have "length (posted ?w1) \<le> length (posted w) + 1"
      by (rule posted_validateSanctumToken_le)
    ultimately show "fst (validateSanctumToken env t2 req2 tok ?w1) =
                  Inr (req2\<lparr>auth := Some (authenticated_as (userData c1) tok sanctum)\<rparr>)
                \<and> length (posted (snd (validateSanctumToken env t2 req2 tok ?w1)))
                    \<le> length (posted w) + 1"
      by (simp add: validateSanctumToken_hit [OF c1(1) t2])
  qed
  show "\<exists>c1. tokenCache ?w1 (getCacheKey env tok) = Some c1
           \<and> t1 \<le> expiresAt c1
           \<and> r1 = req\<lparr>auth := Some (authenticated_as (userData c1) tok sanctum)\<rparr>
           \<and> (cache_miss env t1 tok w \<longrightarrow>
                expiresAt c1 = t1 + int (elapsed (authority_reply env tok)) + 300000)
           \<and> (t2 \<le> expiresAt c1 \<longrightarrow>
                fst (validateSanctumToken env t2 req2 tok ?w1) =
                  Inr (req2\<lparr>auth := Some (authenticated_as (userData c1) tok sanctum)\<rparr>)
                \<and> length (posted (snd (validateSanctumToken env t2 req2 tok ?w1)))
                    \<le> length (posted w) + 1)"
    using c1 r1 fresh second by blast
qed

text \<open>
  Claim C7, as the code has it. When the cache holds nothing usable for the credential
  and the remote validation fails, \<^verbatim>\<open>validateSanctumToken\<close> throws its fixed error and
  stores nothing: the cache afterwards is the cache before without the credential's own
  entry, which the lookup deleted if it was there and expired. With no such entry the
  cache is unchanged. In either case the next presentation of the credential, at any
  time, posts to the authority again.
\<close>

theorem failed_validation_stores_nothing:
  assumes "cache_miss env now tok w"
    and "remote_failure (outcome (authority_reply env tok))"
  shows "fst (validateSanctumToken env now req tok w) = Inl (Error ''Failed to validate Sanctum token'')
    \<and> tokenCache (snd (validateSanctumToken env now req tok w)) =
         (tokenCache w)(getCacheKey env tok := None)
    \<and> (tokenCache w (getCacheKey env tok) = None \<longrightarrow>
         tokenCache (snd (validateSanctumToken env now req tok w)) = tokenCache w)
    \<and> posted (snd (validateSanctumToken env now2 req2 tok (snd (validateSanctumToken env now req tok w)))) =
         posted (snd (validateSanctumToken env now req tok w))
           @ [(env_or (MS_AUTENTIFICACION_URL env) ''http://localhost:8000/graphql'', tok)]"
proof (intro conjI impI)
  let ?w1 = "snd (validateSanctumToken env now req tok w)"
  show "fst (validateSanctumToken env now req tok w) = Inl (Error ''Failed to validate Sanctum token'')"
    by (rule validateSanctumToken_fail(1) [OF assms])
  show t: "tokenCache ?w1 = (tokenCache w)(getCacheKey env tok := None)"
    by (rule validateSanctumToken_fail(2) [OF assms])
  have "cache_miss env now2 tok ?w1"
    by (simp add: cache_miss_def t)
  then show "posted (snd (validateSanctumToken env now2 req2 tok ?w1)) =
         posted ?w1 @ [(env_or (MS_AUTENTIFICACION_URL env) ''http://localhost:8000/graphql'', tok)]"
    by (rule posted_validateSanctumToken_miss)
  assume "tokenCache w (getCacheKey env tok) = None"
  then show "tokenCache ?w1 = tokenCache w"
    by (simp add: t fun_upd_idem)
qed

lemma stale_entry:
  "tokenCache stale_world (getCacheKey down_env ''1|abc'') =
     Some \<lparr>userData = sample_user, expiresAt = 300000\<rparr>"
  by (simp add: stale_world_def cached_entry)

lemma down_env_fails: "remote_failure (outcome (authority_reply down_env t))"
  by (simp add: remote_failure_def authority_reply_def down_env_def refused_reply_def)

text \<open>
  A failed remote validation of a credential whose cache entry has expired: the function
  throws, and the cache is not what it was, since the lookup deleted the expired entry
  before the authority was asked.
\<close>

theorem failed_validation_evicts_counterexample:
  "remote_failure (outcome (authority_reply down_env ''1|abc''))
   \<and> fst (validateSanctumToken down_env 400000 bearer_request ''1|abc'' stale_world) =
       Inl (Error ''Failed to validate Sanctum token'')
   \<and> tokenCache (snd (validateSanctumToken down_env 400000 bearer_request ''1|abc'' stale_world))
       \<noteq> tokenCache stale_world"
proof -
  have m: "cache_miss down_env 400000 ''1|abc'' stale_world"
    by (simp add: cache_miss_def stale_entry)
  have "tokenCache (snd (validateSanctumToken down_env 400000 bearer_request ''1|abc'' stale_world))
          (getCacheKey down_env ''1|abc'') = None"
    by (simp add: validateSanctumToken_fail(2) [OF m down_env_fails])
  then have "tokenCache (snd (validateSanctumToken down_env 400000 bearer_request ''1|abc'' stale_world))
       \<noteq> tokenCache stale_world"
    using stale_entry by (metis option.distinct(1))
  then show ?thesis
    by (simp add: down_env_fails validateSanctumToken_fail(1) [OF m down_env_fails])
qed

text \<open>A credential that was never cached, against an authority that refuses the connection.\<close>

theorem failed_validation_stores_nothing_witness:
  "cache_miss down_env 0 ''1|abc'' empty_world
   \<and> remote_failure (outcome (authority_reply down_env ''1|abc''))
   \<and> fst (validateSanctumToken down_env 0 bearer_request ''1|abc'' empty_world) =
       Inl (Error ''Failed to validate Sanctum token'')
   \<and> tokenCache (snd (validateSanctumToken down_env 0 bearer_request ''1|abc'' empty_world)) =
       tokenCache empty_world"
proof -
  have m: "cache_miss down_env 0 ''1|abc'' empty_world"
    by (simp add: cache_miss_def empty_world_def)
  have n: "tokenCache empty_world (getCacheKey down_env ''1|abc'') = None"
    by (simp add: empty_world_def)
  note t = failed_validation_stores_nothing [OF m down_env_fails, of bearer_request 0 bearer_request]
  have a: "fst (validateSanctumToken down_env 0 bearer_request ''1|abc'' empty_world) =
             Inl (Error ''Failed to validate Sanctum token'')"
    using t by blast
  have b: "tokenCache (snd (validateSanctumToken down_env 0 bearer_request ''1|abc'' empty_world)) =
             tokenCache empty_world"
    using t n by blast
  show ?thesis
    using m a b down_env_fails by blast
qed

lemma up_env_succeeds: "\<not> remote_failure (outcome (authority_reply up_env t))"
  by (simp add: remote_failure_def authority_reply_def up_env_def accepted_reply_def sample_user_def)

lemma up_env_first:
  "fst (validateSanctumToken up_env 1000 bearer_request ''1|abc'' empty_world) =
     Inr (bearer_request\<lparr>auth := Some (authenticated_as sample_user ''1|abc'' sanctum)\<rparr>)"
proof -
  have m: "cache_miss up_env 1000 ''1|abc'' empty_world"
    by (simp add: cache_miss_def empty_world_def)
  have i: "truthy_id (id_field sample_user)"
    by (simp add: sample_user_def)
  have t: "fst (sanctum_try up_env 1000 bearer_request ''1|abc'' w) =
             Inr (bearer_request\<lparr>auth := Some (authenticated_as sample_user ''1|abc'' sanctum)\<rparr>)"
    for w
    by (simp add: sanctum_try_def up_env_def accepted_reply_def Let_def i)
  let ?w1 = "empty_world\<lparr>tokenCache := (tokenCache empty_world)(getCacheKey up_env ''1|abc'' := None)\<rparr>"
  obtain r w2 where st: "sanctum_try up_env 1000 bearer_request ''1|abc'' ?w1 = (r, w2)"
    by (cases "sanctum_try up_env 1000 bearer_request ''1|abc'' ?w1")
  have "r = Inr (bearer_request\<lparr>auth := Some (authenticated_as sample_user ''1|abc'' sanctum)\<rparr>)"
    using t [of ?w1] st by simp
  then show ?thesis
    by (simp add: validateSanctumToken_def get_miss [OF m] st)
qed

text \<open>A first validation at time 1000 answered after 40 ms, a second at the last moment of the TTL.\<close>

theorem cached_validation_skips_authority_witness:
  "fst (validateSanctumToken up_env 1000 bearer_request ''1|abc'' empty_world) =
     Inr (bearer_request\<lparr>auth := Some (authenticated_as sample_user ''1|abc'' sanctum)\<rparr>)
   \<and> fst (validateSanctumToken up_env 301040 bearer_request ''1|abc''
            (snd (validateSanctumToken up_env 1000 bearer_request ''1|abc'' empty_world))) =
       Inr (bearer_request\<lparr>auth := Some (authenticated_as sample_user ''1|abc'' sanctum)\<rparr>)
   \<and> length (posted (snd (validateSanctumToken up_env 301040 bearer_request ''1|abc''
            (snd (validateSanctumToken up_env 1000 bearer_request ''1|abc'' empty_world))))) \<le> 1"
proof -
  have m: "cache_miss up_env 1000 ''1|abc'' empty_world"
    by (simp add: cache_miss_def empty_world_def)
  have p0: "posted empty_world = []"
    by (simp add: empty_world_def)
  have el: "elapsed (authority_reply up_env ''1|abc'') = 40"
    by (simp add: authority_reply_def up_env_def accepted_reply_def)
  note T = cached_validation_skips_authority [where env = up_env and ?t1.0 = 1000
      and req = bearer_request and tok = "''1|abc''" and w = empty_world and ?t2.0 = 301040
      and ?req2.0 = bearer_request
      and ?r1.0 = "bearer_request\<lparr>auth := Some (authenticated_as sample_user ''1|abc'' sanctum)\<rparr>"]
  from T up_env_first obtain c1 :: CacheEntry where
    u: "bearer_request\<lparr>auth := Some (authenticated_as sample_user ''1|abc'' sanctum)\<rparr> =
        bearer_request\<lparr>auth := Some (authenticated_as (userData c1) ''1|abc'' sanctum)\<rparr>"
    and b: "cache_miss up_env 1000 ''1|abc'' empty_world \<longrightarrow>
              expiresAt c1 = 1000 + int (elapsed (authority_reply up_env ''1|abc'')) + 300000"
    and c: "301040 \<le> expiresAt c1 \<longrightarrow>
       fst (validateSanctumToken up_env 301040 bearer_request ''1|abc''
            (snd (validateSanctumToken up_env 1000 bearer_request ''1|abc'' empty_world))) =
         Inr (bearer_request\<lparr>auth := Some (authenticated_as (userData c1) ''1|abc'' sanctum)\<rparr>)
       \<and> length (posted (snd (validateSanctumToken up_env 301040 bearer_request ''1|abc''
            (snd (validateSanctumToken up_env 1000 bearer_request ''1|abc'' empty_world)))))
           \<le> length (posted empty_world) + 1"
    by blast
  have e: "expiresAt c1 = 301040"
    using b m el by simp
  have s: "fst (validateSanctumToken up_env 301040 bearer_request ''1|abc''
            (snd (validateSanctumToken up_env 1000 bearer_request ''1|abc'' empty_world))) =
       Inr (bearer_request\<lparr>auth := Some (authenticated_as (userData c1) ''1|abc'' sanctum)\<rparr>)"
    and l: "length (posted (snd (validateSanctumToken up_env 301040 bearer_request ''1|abc''
            (snd (validateSanctumToken up_env 1000 bearer_request ''1|abc'' empty_world))))) \<le> 1"
    using c e p0 by simp_all
  show ?thesis
    using up_env_first u s l by simp
qed

subsection \<open>Role check\<close>

lemma truthy_str_iff: "truthy_str x \<longleftrightarrow> (\<exists>s. x = Some s \<and> s \<noteq> [])"
  by (cases x) auto

lemma userRole_of_user:
  "user a = Some u \<Longrightarrow>
     userRole_of a =
       (if truthy_str (role u) then role u
        else (case roles u of None \<Rightarrow> None | Some [] \<Rightarrow> None | Some (x # xs) \<Rightarrow> Some x))"
  by (simp add: userRole_of_def)

lemma userRole_of_None: "user a = None \<Longrightarrow> userRole_of a = None"
  by (simp add: userRole_of_def)

lemma userRole_of_Some:
  "(userRole_of a = Some r \<and> r \<noteq> []) \<longleftrightarrow>
     (\<exists>u. user a = Some u \<and> r \<noteq> [] \<and>
        (role u = Some r \<or> (\<not> truthy_str (role u) \<and> (\<exists>rs. roles u = Some (r # rs)))))"
proof (cases "user a")
  case None
  then show ?thesis by (simp add: userRole_of_None)
next
  case (Some u)
  show ?thesis
  proof (cases "truthy_str (role u)")
    case True
    then show ?thesis
      using Some by (auto simp: userRole_of_user truthy_str_iff)
  next
    case False
    then have "role u = Some r \<Longrightarrow> r = []"
      by (simp add: truthy_str_iff)
    with False show ?thesis
      using Some by (auto simp: userRole_of_user split: option.splits list.splits)
  qed
qed

lemma requireRole_next:
  "next_calls (requireRole allowed req w) = 1 \<longleftrightarrow>
     (\<exists>a r. auth req = Some a \<and> authenticated a \<and> userRole_of a = Some r \<and> r \<noteq> [] \<and> r \<in> set allowed)"
proof (cases "auth req")
  case None
  then show ?thesis by (simp add: requireRole_def)
next
  case (Some a)
  show ?thesis
  proof (cases "userRole_of a")
    case None
    with Some show ?thesis by (simp add: requireRole_def Let_def)
  next
    case (Some r)
    with \<open>auth req = Some a\<close> show ?thesis by (auto simp: requireRole_def Let_def)
  qed
qed

lemma requireRole_outcome:
  "(next_calls (requireRole allowed req w) = 1 \<and> res_out (requireRole allowed req w) = None)
   \<or> (next_calls (requireRole allowed req w) = 0
       \<and> (\<exists>resp. res_out (requireRole allowed req w) = Some resp
             \<and> status resp = (if (\<exists>a. auth req = Some a \<and> authenticated a) then 403 else 401)))"
proof (cases "auth req")
  case None
  then show ?thesis by (simp add: requireRole_def)
next
  case (Some a)
  show ?thesis
  proof (cases "authenticated a")
    case False
    with Some show ?thesis by (simp add: requireRole_def)
  next
    case True
    show ?thesis
    proof (cases "\<not> truthy_str (userRole_of a) \<or> \<not> (show_str (userRole_of a) \<in> set allowed)")
      case True
      with Some \<open>authenticated a\<close> show ?thesis by (simp add: requireRole_def Let_def)
    next
      case False
      with Some \<open>authenticated a\<close> show ?thesis by (simp add: requireRole_def Let_def)
    qed
  qed
qed


text \<open>
  What the unified \<^verbatim>\<open>requireRole\<close> checks. It lets the request through exactly when it is
  authenticated and one role of the identity is non-empty and in the allowed list: its
  \<^verbatim>\<open>role\<close>, or the first entry of its \<^verbatim>\<open>roles\<close> when \<^verbatim>\<open>role\<close> is missing or empty. A
  request that passes has a role set that meets the allowed list. Every other request is
  answered, without a call of next, with 401 when it is not authenticated and with 403
  when it is.
\<close>

lemma requireRole_primary_role:
  "(next_calls (requireRole allowed req w) = 1 \<longleftrightarrow>
      (\<exists>a u r. auth req = Some a \<and> authenticated a \<and> user a = Some u \<and> r \<noteq> [] \<and> r \<in> set allowed
         \<and> (role u = Some r \<or> (\<not> truthy_str (role u) \<and> (\<exists>rs. roles u = Some (r # rs))))))
   \<and> (next_calls (requireRole allowed req w) = 1 \<longrightarrow>
        res_out (requireRole allowed req w) = None
        \<and> (\<exists>a u. auth req = Some a \<and> user a = Some u \<and> spec_role_set u \<inter> set allowed \<noteq> {}))
   \<and> (next_calls (requireRole allowed req w) \<noteq> 1 \<longrightarrow>
        next_calls (requireRole allowed req w) = 0
        \<and> (\<exists>resp. res_out (requireRole allowed req w) = Some resp
              \<and> status resp = (if (\<exists>a. auth req = Some a \<and> authenticated a) then 403 else 401)))"
proof (intro conjI impI)
  show "next_calls (requireRole allowed req w) = 1 \<longleftrightarrow>
      (\<exists>a u r. auth req = Some a \<and> authenticated a \<and> user a = Some u \<and> r \<noteq> [] \<and> r \<in> set allowed
         \<and> (role u = Some r \<or> (\<not> truthy_str (role u) \<and> (\<exists>rs. roles u = Some (r # rs)))))"
    (is "?L \<longleftrightarrow> ?R")
  proof
    assume ?L
    then obtain a r where a: "auth req = Some a" "authenticated a" "r \<in> set allowed"
      and r: "userRole_of a = Some r \<and> r \<noteq> []"
      unfolding requireRole_next by blast
    from r obtain u where "user a = Some u" "r \<noteq> []"
      "role u = Some r \<or> (\<not> truthy_str (role u) \<and> (\<exists>rs. roles u = Some (r # rs)))"
      unfolding userRole_of_Some by blast
    with a show ?R by blast
  next
    assume ?R
    then obtain a u r where a: "auth req = Some a" "authenticated a" "r \<in> set allowed"
      and u: "user a = Some u" "r \<noteq> []"
        "role u = Some r \<or> (\<not> truthy_str (role u) \<and> (\<exists>rs. roles u = Some (r # rs)))"
      by blast
    from u have "userRole_of a = Some r \<and> r \<noteq> []"
      unfolding userRole_of_Some by blast
    with a show ?L
      unfolding requireRole_next by blast
  qed
next
  assume n: "next_calls (requireRole allowed req w) = 1"
  then show "res_out (requireRole allowed req w) = None"
    using requireRole_outcome [of allowed req w] by simp
  from n obtain a r where a: "auth req = Some a" "userRole_of a = Some r \<and> r \<noteq> []" "r \<in> set allowed"
    unfolding requireRole_next by blast
  from a(2) obtain u where u: "user a = Some u"
    "role u = Some r \<or> (\<not> truthy_str (role u) \<and> (\<exists>rs. roles u = Some (r # rs)))"
    unfolding userRole_of_Some by blast
  then have "r \<in> spec_role_set u"
    by (auto simp: spec_role_set_def)
  with a u show "\<exists>a u. auth req = Some a \<and> user a = Some u \<and> spec_role_set u \<inter> set allowed \<noteq> {}"
    by blast
next
  assume n: "next_calls (requireRole allowed req w) \<noteq> 1"
  then show "next_calls (requireRole allowed req w) = 0"
    using requireRole_outcome [of allowed req w] by blast
  from n show "\<exists>resp. res_out (requireRole allowed req w) = Some resp
              \<and> status resp = (if (\<exists>a. auth req = Some a \<and> authenticated a) then 403 else 401)"
    using requireRole_outcome [of allowed req w] by blast
qed

text \<open>
  Claim C3 asks that a request passes whenever the role set of its identity, the role
  together with all entries of roles, meets the allowed list. The unified middleware
  does not do that. The sample user has role USER and roles ADMIN, and the second user
  has no role and roles USER and ADMIN: the role set of either meets the allowed list
  ADMIN, and the middleware answers both with 403, since it reads the role USER of the
  first and the first entry USER of the second. The \<^verbatim>\<open>requireRole\<close> of the JWT-only
  middleware lets both requests through.
\<close>

theorem requireRole_rejects_role_in_roles:
  "auth user_request = Some (authenticated_as sample_user ''1|abc'' sanctum)
   \<and> authenticated (authenticated_as sample_user ''1|abc'' sanctum)
   \<and> spec_role_set sample_user \<inter> set [''ADMIN''] \<noteq> {}
   \<and> next_calls (requireRole [''ADMIN''] user_request empty_world) = 0
   \<and> res_out (requireRole [''ADMIN''] user_request empty_world) =
       Some \<lparr>status = 403, error_field = ''Forbidden'', message_field = ''Insufficient permissions''\<rparr>
   \<and> next_calls (authentication_requireRole [''ADMIN''] user_request empty_world) = 1
   \<and> res_out (authentication_requireRole [''ADMIN''] user_request empty_world) = None
   \<and> spec_role_set roles_only_user \<inter> set [''ADMIN''] \<noteq> {}
   \<and> next_calls (requireRole [''ADMIN''] roles_only_request empty_world) = 0
   \<and> res_out (requireRole [''ADMIN''] roles_only_request empty_world) =
       Some \<lparr>status = 403, error_field = ''Forbidden'', message_field = ''Insufficient permissions''\<rparr>
   \<and> next_calls (authentication_requireRole [''ADMIN''] roles_only_request empty_world) = 1
   \<and> res_out (authentication_requireRole [''ADMIN''] roles_only_request empty_world) = None"
  by (simp add: user_request_def roles_only_request_def authenticated_as_def sample_user_def
                roles_only_user_def spec_role_set_def requireRole_def userRole_of_def
                authentication_requireRole_def Let_def)

text \<open>The two middlewares disagree on both requests.\<close>

theorem requireRole_rejects_role_in_roles_witness:
  "next_calls (requireRole [''ADMIN''] user_request empty_world)
     < next_calls (authentication_requireRole [''ADMIN''] user_request empty_world)
   \<and> next_calls (requireRole [''ADMIN''] roles_only_request empty_world)
     < next_calls (authentication_requireRole [''ADMIN''] roles_only_request empty_world)"
  using requireRole_rejects_role_in_roles by simp

subsection \<open>Service health and readiness\<close>

lemma set_set_add [simp]: "set (set_add x xs) = insert x (set xs)"
  by (auto simp: set_add_def)

lemma set_set_delete [simp]: "set (set_delete x xs) = set xs - {x}"
  by (auto simp: set_delete_def)

lemma probe_one_reachable:
  "reachable fetch c \<Longrightarrow>
     \<exists>this'. probe_one fetch c (av, un, this) = (av @ [name c], un, this')
       \<and> set (this_availableServices this') = insert (name c) (set (this_availableServices this))
       \<and> set (this_unavailableServices this') = set (this_unavailableServices this) - {name c}"
  by (auto simp: probe_one_def reachable_def Let_def)

lemma probe_one_unreachable:
  "\<not> reachable fetch c \<Longrightarrow>
     \<exists>this'. probe_one fetch c (av, un, this) = (av, un @ [name c], this')
       \<and> set (this_availableServices this') = set (this_availableServices this)
       \<and> set (this_unavailableServices this') = insert (name c) (set (this_unavailableServices this))"
  by (auto simp: probe_one_def reachable_def split: fetch_outcome.splits bool.splits)

lemma probe_all_result:
  "\<exists>this'. probe_all fetch cfg (av, un, this) =
      (av @ map name (filter (reachable fetch) cfg),
       un @ map name (filter (\<lambda>c. \<not> reachable fetch c) cfg), this')
     \<and> set (this_availableServices this') =
         set (this_availableServices this) \<union> name ` {c \<in> set cfg. reachable fetch c}
     \<and> (distinct (map name cfg) \<longrightarrow>
          set (this_unavailableServices this') =
            (set (this_unavailableServices this) - name ` {c \<in> set cfg. reachable fetch c})
              \<union> name ` {c \<in> set cfg. \<not> reachable fetch c})"
proof (induction cfg arbitrary: av un this)
  case Nil
  then show ?case by simp
next
  case (Cons c cfg)
  show ?case
  proof (cases "reachable fetch c")
    case True
    from probe_one_reachable [OF True, of av un this]
    obtain this1 where p: "probe_one fetch c (av, un, this) = (av @ [name c], un, this1)"
      and a: "set (this_availableServices this1) = insert (name c) (set (this_availableServices this))"
      and u: "set (this_unavailableServices this1) = set (this_unavailableServices this) - {name c}"
      by blast
    from Cons.IH [of "av @ [name c]" un this1]
    obtain this' where r: "probe_all fetch cfg (av @ [name c], un, this1) =
        ((av @ [name c]) @ map name (filter (reachable fetch) cfg),
         un @ map name (filter (\<lambda>c. \<not> reachable fetch c) cfg), this')"
      and a': "set (this_availableServices this') =
         set (this_availableServices this1) \<union> name ` {c \<in> set cfg. reachable fetch c}"
      and u': "distinct (map name cfg) \<longrightarrow>
          set (this_unavailableServices this') =
            (set (this_unavailableServices this1) - name ` {c \<in> set cfg. reachable fetch c})
              \<union> name ` {c \<in> set cfg. \<not> reachable fetch c}"
      by blast
    have "distinct (map name (c # cfg)) \<longrightarrow>
          set (this_unavailableServices this') =
            (set (this_unavailableServices this) - name ` {x \<in> set (c # cfg). reachable fetch x})
              \<union> name ` {x \<in> set (c # cfg). \<not> reachable fetch x}"
      using u' u True by (auto simp: image_iff)
    moreover have "set (this_availableServices this') =
         set (this_availableServices this) \<union> name ` {x \<in> set (c # cfg). reachable fetch x}"
      using a' a True by auto
    ultimately show ?thesis
      using p r True by simp
  next
    case False
    from probe_one_unreachable [OF False, of av un this]
    obtain this1 where p: "probe_one fetch c (av, un, this) = (av, un @ [name c], this1)"
      and a: "set (this_availableServices this1) = set (this_availableServices this)"
      and u: "set (this_unavailableServices this1) = insert (name c) (set (this_unavailableServices this))"
      by blast
    from Cons.IH [of av "un @ [name c]" this1]
    obtain this' where r: "probe_all fetch cfg (av, un @ [name c], this1) =
        (av @ map name (filter (reachable fetch) cfg),
         (un @ [name c]) @ map name (filter (\<lambda>c. \<not> reachable fetch c) cfg), this')"
      and a': "set (this_availableServices this') =
         set (this_availableServices this1) \<union> name ` {c \<in> set cfg. reachable fetch c}"
      and u': "distinct (map name cfg) \<longrightarrow>
          set (this_unavailableServices this') =
            (set (this_unavailableServices this1) - name ` {c \<in> set cfg. reachable fetch c})
              \<union> name ` {c \<in> set cfg. \<not> reachable fetch c}"
      by blast
    have "distinct (map name (c # cfg)) \<longrightarrow>
          set (this_unavailableServices this') =
            (set (this_unavailableServices this) - name ` {x \<in> set (c # cfg). reachable fetch x})
              \<union> name ` {x \<in> set (c # cfg). \<not> reachable fetch x}"
      using u' u False by (auto simp: image_iff)
    moreover have "set (this_availableServices this') =
         set (this_availableServices this) \<union> name ` {x \<in> set (c # cfg). reachable fetch x}"
      using a' a False by auto
    ultimately show ?thesis
      using p r False by simp
  qed
qed

lemma name_subgraph_entry:
  "map name (subgraph_entry penv enabled nm v d) = filter (\<lambda>n. n \<in> set enabled) [nm]"
  by (simp add: subgraph_entry_def)

lemma names_SUBGRAPH_CONFIG:
  "map name (SUBGRAPH_CONFIG penv enabled) =
     filter (\<lambda>n. n \<in> set enabled)
       ([''autentificacion''] @ [''despacho''] @ [''recepcion''] @ [''websocket'']
          @ [''decision''] @ [''ml_despacho''])"
  by (simp only: SUBGRAPH_CONFIG_def map_append name_subgraph_entry filter_append)

lemma distinct_SUBGRAPH_CONFIG: "distinct (map name (SUBGRAPH_CONFIG penv enabled))"
  unfolding names_SUBGRAPH_CONFIG by (rule distinct_filter) simp

lemma checkServiceHealth_result:
  "\<exists>this'. checkServiceHealth cfg fetch this =
      (\<lparr>availableServices = map name (filter (reachable fetch) cfg),
        unavailableServices = map name (filter (\<lambda>c. \<not> reachable fetch c) cfg),
        totalConfigured = length cfg\<rparr>, this')
     \<and> set (this_availableServices this') =
         set (this_availableServices this) \<union> name ` {c \<in> set cfg. reachable fetch c}
     \<and> (distinct (map name cfg) \<longrightarrow>
          set (this_unavailableServices this') =
            (set (this_unavailableServices this) - name ` {c \<in> set cfg. reachable fetch c})
              \<union> name ` {c \<in> set cfg. \<not> reachable fetch c})"
proof -
  from probe_all_result [of fetch cfg "[]" "[]" this]
  obtain this' where "probe_all fetch cfg ([], [], this) =
      ([] @ map name (filter (reachable fetch) cfg),
       [] @ map name (filter (\<lambda>c. \<not> reachable fetch c) cfg), this')"
    and "set (this_availableServices this') =
         set (this_availableServices this) \<union> name ` {c \<in> set cfg. reachable fetch c}"
    and "distinct (map name cfg) \<longrightarrow>
          set (this_unavailableServices this') =
            (set (this_unavailableServices this) - name ` {c \<in> set cfg. reachable fetch c})
              \<union> name ` {c \<in> set cfg. \<not> reachable fetch c}"
    by blast
  then show ?thesis
    by (simp add: checkServiceHealth_def)
qed

lemma distinct_partition:
  assumes "distinct (map f xs)"
  shows "distinct (map f (filter P xs) @ map f (filter (\<lambda>x. \<not> P x) xs))"
proof -
  have "inj_on f (set xs)"
    using assms by (simp add: distinct_map)
  then have "f ` {x \<in> set xs. P x} \<inter> f ` {x \<in> set xs. \<not> P x} = {}"
    by (auto simp: inj_on_def)
  then show ?thesis
    using assms by (simp add: distinct_map_filter)
qed

text \<open>
  Claim C9. For every configuration the gateway can have (every process environment and
  every list of enabled services) and every state of the network, one call of
  \<^verbatim>\<open>checkServiceHealth\<close> returns the names of the reachable services as
  \<^verbatim>\<open>availableServices\<close> and the names of the others as \<^verbatim>\<open>unavailableServices\<close>, in the order
  of the configuration: \<open>M\<close> names and \<open>N - M\<close> names. The two lists together hold every
  configured name once, and \<^verbatim>\<open>totalConfigured\<close> is \<open>N\<close>.
\<close>

theorem checkServiceHealth_partition:
  "(let cfg = SUBGRAPH_CONFIG penv enabled;
        result = fst (checkServiceHealth cfg fetch this);
        M = length (filter (reachable fetch) cfg);
        N = length cfg
    in availableServices result = map name (filter (reachable fetch) cfg)
     \<and> unavailableServices result = map name (filter (\<lambda>c. \<not> reachable fetch c) cfg)
     \<and> length (availableServices result) = M
     \<and> length (unavailableServices result) = N - M
     \<and> totalConfigured result = N
     \<and> distinct (availableServices result @ unavailableServices result)
     \<and> set (availableServices result) \<union> set (unavailableServices result) = set (map name cfg))"
proof -
  let ?cfg = "SUBGRAPH_CONFIG penv enabled"
  obtain this' where r: "checkServiceHealth ?cfg fetch this =
      (\<lparr>availableServices = map name (filter (reachable fetch) ?cfg),
        unavailableServices = map name (filter (\<lambda>c. \<not> reachable fetch c) ?cfg),
        totalConfigured = length ?cfg\<rparr>, this')"
    using checkServiceHealth_result [of ?cfg fetch this] by blast
  have l: "length (filter (\<lambda>c. \<not> reachable fetch c) ?cfg) =
             length ?cfg - length (filter (reachable fetch) ?cfg)"
    using sum_length_filter_compl [of "reachable fetch" ?cfg] by simp
  have d: "distinct (map name (filter (reachable fetch) ?cfg)
                     @ map name (filter (\<lambda>c. \<not> reachable fetch c) ?cfg))"
    by (rule distinct_partition [OF distinct_SUBGRAPH_CONFIG])
  have u: "set (map name (filter (reachable fetch) ?cfg))
             \<union> set (map name (filter (\<lambda>c. \<not> reachable fetch c) ?cfg)) = set (map name ?cfg)"
    by auto
  show ?thesis
    unfolding Let_def r fst_conv using l d u by simp
qed

lemma available_mono:
  "set (this_availableServices this)
     \<subseteq> set (this_availableServices (snd (checkServiceHealth cfg fetch this)))"
  using checkServiceHealth_result [of cfg fetch this] by auto

lemma available_mono_runs:
  "set (this_availableServices this) \<subseteq> set (this_availableServices (health_runs cfg fs this))"
proof (induction fs arbitrary: this)
  case Nil
  then show ?case by (simp add: health_runs_def)
next
  case (Cons f fs)
  have "health_runs cfg (f # fs) this = health_runs cfg fs (snd (checkServiceHealth cfg f this))"
    by (simp add: health_runs_def)
  then show ?case
    using Cons.IH [of "snd (checkServiceHealth cfg f this)"] available_mono [of this cfg f]
    by auto
qed

lemma reachable_recorded:
  assumes "c \<in> set cfg" "reachable fetch c" "distinct (map name cfg)"
  shows "name c \<in> set (this_availableServices (snd (checkServiceHealth cfg fetch this)))"
    and "name c \<notin> set (this_unavailableServices (snd (checkServiceHealth cfg fetch this)))"
proof -
  obtain this' where r: "snd (checkServiceHealth cfg fetch this) = this'"
    and a: "set (this_availableServices this') =
         set (this_availableServices this) \<union> name ` {c \<in> set cfg. reachable fetch c}"
    and u: "set (this_unavailableServices this') =
            (set (this_unavailableServices this) - name ` {c \<in> set cfg. reachable fetch c})
              \<union> name ` {c \<in> set cfg. \<not> reachable fetch c}"
    using checkServiceHealth_result [of cfg fetch this] assms(3) by auto
  have i: "inj_on name (set cfg)"
    using assms(3) by (simp add: distinct_map)
  show "name c \<in> set (this_availableServices (snd (checkServiceHealth cfg fetch this)))"
    using assms(1,2) by (simp add: r a)
  have "name c \<notin> name ` {c \<in> set cfg. \<not> reachable fetch c}"
    using assms(1,2) i by (auto simp: inj_on_def)
  then show "name c \<notin> set (this_unavailableServices (snd (checkServiceHealth cfg fetch this)))"
    using assms(1,2) by (simp add: r u)
qed

lemma unreachable_recorded:
  assumes "c \<in> set cfg" "\<not> reachable fetch c" "distinct (map name cfg)"
  shows "name c \<in> set (this_unavailableServices (snd (checkServiceHealth cfg fetch this)))"
  using checkServiceHealth_result [of cfg fetch this] assms by auto

text \<open>
  Claim C10. A call of \<^verbatim>\<open>checkServiceHealth\<close> only adds to the set \<^verbatim>\<open>availableServices\<close> of
  the checker. A service that probes reachable is in that set afterwards and is no longer
  in \<^verbatim>\<open>unavailableServices\<close>. So after a run in which a service was reachable and a later
  run in which it was not, with any runs in between, \<^verbatim>\<open>getStatus\<close> lists its name both as
  available and as unavailable.
\<close>

theorem availableServices_only_grows:
  "(let cfg = SUBGRAPH_CONFIG penv enabled in
      set (this_availableServices this)
        \<subseteq> set (this_availableServices (snd (checkServiceHealth cfg fetch this)))
    \<and> (c \<in> set cfg \<and> reachable fetch c \<longrightarrow>
         name c \<in> set (this_availableServices (snd (checkServiceHealth cfg fetch this)))
         \<and> name c \<notin> set (this_unavailableServices (snd (checkServiceHealth cfg fetch this))))
    \<and> (c \<in> set cfg \<and> reachable f1 c \<and> \<not> reachable f2 c \<longrightarrow>
         name c \<in> set (availableServices (getStatus cfg (health_runs cfg (f1 # mid @ [f2]) this)))
         \<and> name c \<in> set (unavailableServices (getStatus cfg (health_runs cfg (f1 # mid @ [f2]) this)))))"
proof -
  let ?cfg = "SUBGRAPH_CONFIG penv enabled"
  note d = distinct_SUBGRAPH_CONFIG [of penv enabled]
  have one: "set (this_availableServices this)
        \<subseteq> set (this_availableServices (snd (checkServiceHealth ?cfg fetch this)))"
    by (rule available_mono)
  have two: "c \<in> set ?cfg \<and> reachable fetch c \<longrightarrow>
         name c \<in> set (this_availableServices (snd (checkServiceHealth ?cfg fetch this)))
         \<and> name c \<notin> set (this_unavailableServices (snd (checkServiceHealth ?cfg fetch this)))"
    using reachable_recorded [of c ?cfg fetch this] d by blast
  have three: "c \<in> set ?cfg \<and> reachable f1 c \<and> \<not> reachable f2 c \<longrightarrow>
         name c \<in> set (availableServices (getStatus ?cfg (health_runs ?cfg (f1 # mid @ [f2]) this)))
         \<and> name c \<in> set (unavailableServices (getStatus ?cfg (health_runs ?cfg (f1 # mid @ [f2]) this)))"
  proof
    assume h: "c \<in> set ?cfg \<and> reachable f1 c \<and> \<not> reachable f2 c"
    let ?s1 = "snd (checkServiceHealth ?cfg f1 this)"
    let ?s2 = "health_runs ?cfg mid ?s1"
    have e: "health_runs ?cfg (f1 # mid @ [f2]) this = snd (checkServiceHealth ?cfg f2 ?s2)"
      by (simp add: health_runs_def)
    have "name c \<in> set (this_availableServices ?s1)"
      using h reachable_recorded(1) [of c ?cfg f1 this] d by blast
    then have "name c \<in> set (this_availableServices ?s2)"
      using available_mono_runs [of ?s1 ?cfg mid] by blast
    then have a: "name c \<in> set (this_availableServices (snd (checkServiceHealth ?cfg f2 ?s2)))"
      using available_mono [of ?s2 ?cfg f2] by blast
    have u: "name c \<in> set (this_unavailableServices (snd (checkServiceHealth ?cfg f2 ?s2)))"
      using h unreachable_recorded [of c ?cfg f2 ?s2] d by blast
    show "name c \<in> set (availableServices (getStatus ?cfg (health_runs ?cfg (f1 # mid @ [f2]) this)))
         \<and> name c \<in> set (unavailableServices (getStatus ?cfg (health_runs ?cfg (f1 # mid @ [f2]) this)))"
      using a u by (simp add: e getStatus_def)
  qed
  show ?thesis
    unfolding Let_def using one two three by blast
qed

lemma despacho_configured:
  "SUBGRAPH_CONFIG no_env [''despacho''] = [despacho]"
  by (simp add: SUBGRAPH_CONFIG_def subgraph_entry_def getSubgraphURL_def env_or_def no_env_def
                despacho_def)

text \<open>Two enabled services of which one answers: decision is down, despacho is up.\<close>

theorem checkServiceHealth_partition_witness:
  "availableServices (fst (checkServiceHealth (SUBGRAPH_CONFIG no_env [''decision'', ''despacho''])
       only_despacho_up (resilientServiceChecker (SUBGRAPH_CONFIG no_env [''decision'', ''despacho''])))) =
     [''despacho'']
   \<and> unavailableServices (fst (checkServiceHealth (SUBGRAPH_CONFIG no_env [''decision'', ''despacho''])
       only_despacho_up (resilientServiceChecker (SUBGRAPH_CONFIG no_env [''decision'', ''despacho''])))) =
     [''decision'']
   \<and> totalConfigured (fst (checkServiceHealth (SUBGRAPH_CONFIG no_env [''decision'', ''despacho''])
       only_despacho_up (resilientServiceChecker (SUBGRAPH_CONFIG no_env [''decision'', ''despacho''])))) = 2"
proof -
  have c: "SUBGRAPH_CONFIG no_env [''decision'', ''despacho''] =
             [despacho, \<lparr>name = ''decision'', url = ''http://localhost:8002/graphql'',
                         timeout = Some 10000, retries = Some 3\<rparr>]"
    by (simp add: SUBGRAPH_CONFIG_def subgraph_entry_def getSubgraphURL_def env_or_def no_env_def
                  despacho_def)
  have r1: "reachable only_despacho_up despacho"
    by (simp add: reachable_def probe_url_def only_despacho_up_def despacho_def)
  have r2: "\<not> reachable only_despacho_up \<lparr>name = ''decision'', url = ''http://localhost:8002/graphql'',
                         timeout = Some 10000, retries = Some 3\<rparr>"
    by (simp add: reachable_def probe_url_def only_despacho_up_def)
  have n: "name despacho = ''despacho''"
    by (simp add: despacho_def)
  show ?thesis
    using checkServiceHealth_partition [of no_env "[''decision'', ''despacho'']" only_despacho_up
            "resilientServiceChecker (SUBGRAPH_CONFIG no_env [''decision'', ''despacho''])"]
    by (simp add: Let_def c r1 r2 n)
qed

text \<open>The service despacho, up in a first run and down in the next.\<close>

theorem availableServices_only_grows_witness:
  "despacho \<in> set (SUBGRAPH_CONFIG no_env [''despacho''])
   \<and> reachable all_up despacho
   \<and> \<not> reachable all_down despacho
   \<and> name despacho \<in> set (availableServices (getStatus (SUBGRAPH_CONFIG no_env [''despacho''])
        (health_runs (SUBGRAPH_CONFIG no_env [''despacho'']) [all_up, all_down]
           (resilientServiceChecker (SUBGRAPH_CONFIG no_env [''despacho''])))))
   \<and> name despacho \<in> set (unavailableServices (getStatus (SUBGRAPH_CONFIG no_env [''despacho''])
        (health_runs (SUBGRAPH_CONFIG no_env [''despacho'']) [all_up, all_down]
           (resilientServiceChecker (SUBGRAPH_CONFIG no_env [''despacho''])))))"
proof -
  have m: "despacho \<in> set (SUBGRAPH_CONFIG no_env [''despacho''])"
    by (simp add: despacho_configured)
  have u: "reachable all_up despacho"
    by (simp add: reachable_def all_up_def)
  have d: "\<not> reachable all_down despacho"
    by (simp add: reachable_def all_down_def)
  show ?thesis
    using m u d
      availableServices_only_grows [where penv = no_env and enabled = "[''despacho'']"
        and c = despacho and ?f1.0 = all_up and ?f2.0 = all_down and mid = "[]"
        and this = "resilientServiceChecker (SUBGRAPH_CONFIG no_env [''despacho''])"]
    by (simp add: Let_def)
qed

lemma fold_on_poll: "fold on_poll polls r = r"
  by (induction polls) (simp_all add: on_poll_def)

text \<open>
  Claim C4 asks that a successful composition after a failed start makes the schema
  ready. In the server the flag is written by the two callbacks of the start promise
  only: after a rejected start it is false, and it is still false after any number of
  polling cycles, the last of which composed the schema.
\<close>

theorem schemaReady_never_recovers:
  "schemaReady (run_server (StartRejected msg) (polls @ [PollComposed])) = False
   \<and> serverStarted (run_server (StartRejected msg) (polls @ [PollComposed])) = True"
  by (simp add: run_server_def fold_on_poll on_poll_def on_start_def readiness_at_boot_def)

end
